theory Spec2Isabelle
  imports Main
begin

text \<open>
  A shallow embedding of the operation synthesizer (\<open>buildOperation\<close> and the functions
  below it) and of the subscription manager (\<open>SubscriptionManager\<close>), with the properties
  of both that the specification states.
\<close>

section \<open>Schema and operation documents\<close>

text \<open>
  The schema is the read-only type graph the synthesizer walks. The source holds it as an
  object graph (a field's type is a reference to a type object); here a type is referred
  to by its name and looked up in the schema's list of type definitions.
\<close>

datatype gql_type = NamedT string | ListT gql_type | NonNullT gql_type

record gql_argument =
  arg_name :: string
  arg_type :: gql_type

record gql_field =
  field_name :: string
  field_type :: gql_type
  field_args :: "gql_argument list"

datatype type_def =
    ScalarType
  | EnumType
  | InputObjectType
  | InterfaceType "gql_field list"
  | ObjectType "gql_field list"
  | UnionType "string list"

record schema =
  types :: "(string \<times> type_def) list"
  queryType :: "string option"
  mutationType :: "string option"
  subscriptionType :: "string option"

datatype operation_kind = Query | Mutation | Subscription

datatype type_node = NamedTypeNode string | ListTypeNode type_node | NonNullTypeNode type_node

record variable_definition =
  var_name :: string
  var_type :: type_node

text \<open>An argument node: the argument's name and the name of the variable it refers to.\<close>

datatype argument_node = Argument string string

text \<open>
  A field node has a name, an \<open>arguments\<close> property and a \<open>selectionSet\<close> property; either
  may be missing (\<open>None\<close>). An inline fragment has a type condition and a selection set.
\<close>

datatype selection =
    Field string "argument_node list option" "selection list option"
  | InlineFragment string "selection list"

record operation_definition =
  operation :: operation_kind
  op_name :: string
  variableDefinitions :: "variable_definition list"
  selectionSet :: "selection list"

record document =
  definitions :: "operation_definition list"

section \<open>Camel case\<close>

definition is_upper :: "char \<Rightarrow> bool" where
  "is_upper c = (65 \<le> (of_char c :: nat) \<and> (of_char c :: nat) \<le> 90)"

definition is_lower :: "char \<Rightarrow> bool" where
  "is_lower c = (97 \<le> (of_char c :: nat) \<and> (of_char c :: nat) \<le> 122)"

definition is_digit :: "char \<Rightarrow> bool" where
  "is_digit c = (48 \<le> (of_char c :: nat) \<and> (of_char c :: nat) \<le> 57)"

definition is_word_char :: "char \<Rightarrow> bool" where
  "is_word_char c = (is_upper c \<or> is_lower c \<or> is_digit c)"

definition lower_char :: "char \<Rightarrow> char" where
  "lower_char c = (if is_upper c then char_of ((of_char c :: nat) + 32) else c)"

definition upper_char :: "char \<Rightarrow> char" where
  "upper_char c = (if is_lower c then char_of ((of_char c :: nat) - 32) else c)"

text \<open>"camelCase" becomes "camel Case": a space between a lower-case letter or digit and
  an upper-case letter.\<close>

fun split_camel :: "string \<Rightarrow> string" where
  "split_camel (a # b # cs) =
     (if (is_lower a \<or> is_digit a) \<and> is_upper b
      then a # CHR '' '' # split_camel (b # cs)
      else a # split_camel (b # cs))"
| "split_camel cs = cs"

text \<open>"CAMELCase" becomes "CAMEL Case".\<close>

fun split_upper :: "string \<Rightarrow> string" where
  "split_upper (a # b # c # cs) =
     (if is_upper a \<and> is_upper b \<and> is_lower c
      then a # CHR '' '' # split_upper (b # c # cs)
      else a # split_upper (b # c # cs))"
| "split_upper cs = cs"

text \<open>The maximal runs of letters and digits; \<open>w\<close> is the run being read.\<close>

fun word_runs :: "string \<Rightarrow> string \<Rightarrow> string list" where
  "word_runs w [] = (if w = [] then [] else [w])"
| "word_runs w (c # cs) =
     (if is_word_char c then word_runs (w @ [c]) cs
      else if w = [] then word_runs [] cs
      else w # word_runs [] cs)"

definition no_case :: "string \<Rightarrow> string list" where
  "no_case s = map (map lower_char) (word_runs [] (split_upper (split_camel s)))"

definition join_word :: "string \<Rightarrow> string" where
  "join_word w =
     (case w of
        [] \<Rightarrow> []
      | c # cs \<Rightarrow> if is_digit c then CHR ''_'' # c # cs else upper_char c # cs)"

text \<open>
  Modelled from the spec: \<open>changeCase.camel\<close> of the \<open>change-case\<close> package, which is not
  among the sources; the spec only says "camel-cased". On ASCII names: the string is cut
  into words at every run of characters that are neither letters nor digits and at the
  case boundaries above, the words are lower-cased, and every word after the first has
  its first letter upper-cased (a word starting with a digit is joined with an underscore
  instead).
\<close>

definition camel :: "string \<Rightarrow> string" where
  "camel s =
     (case no_case s of
        [] \<Rightarrow> []
      | w # ws \<Rightarrow> w @ concat (map join_word ws))"

section \<open>The operation synthesizer\<close>

text \<open>
  The module-level state of the synthesizer: the list \<open>operationVariables\<close> and the object
  \<open>visitedTypes\<close>. The code reads \<open>visitedTypes[key]\<close> only for truthiness, so the model
  keeps, for every key, whether that read is truthy: the boolean last written under the
  key, and before any write what a plain object \<open>{}\<close> gives under it, which is truthy for
  the names it inherits from \<open>Object.prototype\<close> and \<open>undefined\<close> for every other key.
\<close>

record synth_state =
  operationVariables :: "variable_definition list"
  visitedTypes :: "string \<Rightarrow> bool"

text \<open>The property names of \<open>Object.prototype\<close>; each holds a function or an object.\<close>

definition inherited_object_properties :: "string list" where
  "inherited_object_properties =
     [''constructor'', ''__defineGetter__'', ''__defineSetter__'', ''hasOwnProperty'',
      ''__lookupGetter__'', ''__lookupSetter__'', ''isPrototypeOf'',
      ''propertyIsEnumerable'', ''toString'', ''valueOf'', ''__proto__'',
      ''toLocaleString'']"

text \<open>
  \<open>visitedTypes[key] = b\<close>. The assignment makes an own property, which hides an inherited
  one, except under \<open>__proto__\<close>: that name is a setter which ignores a boolean.
\<close>

definition set_visited :: "string \<Rightarrow> bool \<Rightarrow> (string \<Rightarrow> bool) \<Rightarrow> (string \<Rightarrow> bool)" where
  "set_visited key b visited = (if key = ''__proto__'' then visited else visited(key := b))"

definition addOperationVariable :: "variable_definition \<Rightarrow> synth_state \<Rightarrow> synth_state" where
  "addOperationVariable v st = st\<lparr>operationVariables := operationVariables st @ [v]\<rparr>"

definition resetOperationVariables :: "synth_state \<Rightarrow> synth_state" where
  "resetOperationVariables st = st\<lparr>operationVariables := []\<rparr>"

definition buildOperationName :: "string \<Rightarrow> string" where
  "buildOperationName name = camel name"

fun kind_string :: "operation_kind \<Rightarrow> string" where
  "kind_string Query = ''query''"
| "kind_string Mutation = ''mutation''"
| "kind_string Subscription = ''subscription''"

text \<open>\<open>String(type)\<close>: a list type prints in brackets, a non-null type with a trailing \<open>!\<close>.\<close>

fun type_string :: "gql_type \<Rightarrow> string" where
  "type_string (NamedT n) = n"
| "type_string (ListT t) = ''['' @ type_string t @ '']''"
| "type_string (NonNullT t) = type_string t @ ''!''"

fun getNamedType :: "gql_type \<Rightarrow> string" where
  "getNamedType (NamedT n) = n"
| "getNamedType (ListT t) = getNamedType t"
| "getNamedType (NonNullT t) = getNamedType t"

definition lookup_type :: "schema \<Rightarrow> string \<Rightarrow> type_def option" where
  "lookup_type S n = map_of (types S) n"

definition isScalarType :: "schema \<Rightarrow> string \<Rightarrow> bool" where
  "isScalarType S n = (lookup_type S n = Some ScalarType)"

text \<open>\<open>t.getFields()\<close> of a union member; the members of a union are object types.\<close>

definition getFields :: "schema \<Rightarrow> string \<Rightarrow> gql_field list" where
  "getFields S n = (case lookup_type S n of Some (ObjectType fs) \<Rightarrow> fs | _ \<Rightarrow> [])"

fun resolveVariableType :: "gql_type \<Rightarrow> type_node" where
  "resolveVariableType (ListT t) = ListTypeNode (resolveVariableType t)"
| "resolveVariableType (NonNullT t) = NonNullTypeNode (resolveVariableType t)"
| "resolveVariableType (NamedT n) = NamedTypeNode n"

text \<open>\<open>name || arg.name\<close>: a missing name and the empty string both give the argument's name.\<close>

definition resolveVariable :: "gql_argument \<Rightarrow> string option \<Rightarrow> variable_definition" where
  "resolveVariable arg name =
     \<lparr>var_name = (case name of None \<Rightarrow> arg_name arg
                  | Some n \<Rightarrow> if n = [] then arg_name arg else n),
      var_type = resolveVariableType (arg_type arg)\<rparr>"

fun join_underscore :: "string list \<Rightarrow> string" where
  "join_underscore [] = []"
| "join_underscore [x] = x"
| "join_underscore (x # y # ys) = x @ ''_'' @ join_underscore (y # ys)"

definition getArgumentName :: "string \<Rightarrow> string list \<Rightarrow> string" where
  "getArgumentName name path = camel (join_underscore (path @ [name]))"

text \<open>\<open>path[path.length - 1]\<close> inside a template string.\<close>

definition last_of_path :: "string list \<Rightarrow> string" where
  "last_of_path path = (if path = [] then ''undefined'' else last path)"

text \<open>\<open>xs.map(f)\<close> where the callback changes the module state: left to right.\<close>

fun map_st :: "('a \<Rightarrow> 's \<Rightarrow> ('b \<times> 's) option) \<Rightarrow> 'a list \<Rightarrow> 's \<Rightarrow> ('b list \<times> 's) option" where
  "map_st f [] st = Some ([], st)"
| "map_st f (x # xs) st =
     (case f x st of
        None \<Rightarrow> None
      | Some (y, st1) \<Rightarrow>
          (case map_st f xs st1 of
             None \<Rightarrow> None
           | Some (ys, st2) \<Rightarrow> Some (y # ys, st2)))"

text \<open>
  \<open>resolveSelectionSet\<close> and \<open>resolveField\<close> call each other without any bound of their
  own, so the model counts the nesting of calls down from a first argument: \<open>None\<close> says
  that the calls nest deeper than that.

  In the object branch the fields are filtered first, all against the state on entry;
  \<open>Object.keys(filtered)\<close> lists the names of the surviving fields in field order and
  \<open>fields[fieldName]\<close> is the field of that name, so the model maps over the surviving
  fields themselves.
\<close>

fun resolveSelectionSet ::
    "nat \<Rightarrow> schema \<Rightarrow> string \<Rightarrow> string \<Rightarrow> string list \<Rightarrow> bool \<Rightarrow> string list \<Rightarrow> string list
       \<Rightarrow> synth_state \<Rightarrow> (selection list option \<times> synth_state) option"
  and resolveField ::
    "nat \<Rightarrow> schema \<Rightarrow> string \<Rightarrow> gql_field \<Rightarrow> string list \<Rightarrow> bool \<Rightarrow> string list \<Rightarrow> string list
       \<Rightarrow> synth_state \<Rightarrow> (selection \<times> synth_state) option"
where
  "resolveSelectionSet 0 S parent type models firstCall path ignore st = None"
| "resolveSelectionSet (Suc n) S parent type models firstCall path ignore st =
     (case lookup_type S type of
        Some (UnionType ts) \<Rightarrow>
          (case map_st
                  (\<lambda>t s.
                     case map_st
                            (\<lambda>f s'. resolveField n S t f models False
                                       (path @ [field_name f]) ignore s')
                            (getFields S t) s of
                       None \<Rightarrow> None
                     | Some (sels, s1) \<Rightarrow> Some (InlineFragment t sels, s1))
                  ts st of
             None \<Rightarrow> None
           | Some (frags, st1) \<Rightarrow> Some (Some frags, st1))
      | Some (ObjectType fs) \<Rightarrow>
          (let isIgnored = (type \<in> set ignore
                              \<or> (parent @ ''.'' @ last_of_path path) \<in> set ignore);
               isModel = (type \<in> set models)
           in if \<not> firstCall \<and> isModel \<and> \<not> isIgnored
              then Some (Some [Field ''id'' None None], st)
              else
                (let filtered = filter (\<lambda>f. \<not> visitedTypes st (type_string (field_type f)))
                                  fs;
                     st1 = st\<lparr>visitedTypes := set_visited type True (visitedTypes st)\<rparr>
                 in case map_st
                           (\<lambda>f s. resolveField n S type f models False
                                     (path @ [field_name f]) ignore s)
                           filtered st1 of
                      None \<Rightarrow> None
                    | Some (sels, st2) \<Rightarrow>
                        Some (Some sels,
                              st2\<lparr>visitedTypes :=
                                    set_visited type False (visitedTypes st2)\<rparr>)))
      | _ \<Rightarrow> Some (None, st))"
| "resolveField 0 S type field models firstCall path ignore st = None"
| "resolveField (Suc n) S type field models firstCall path ignore st =
     (let namedType = getNamedType (field_type field);
          st1 = (if firstCall then st
                 else foldl (\<lambda>s arg. addOperationVariable
                                        (resolveVariable arg
                                           (Some (getArgumentName (arg_name arg) path))) s)
                        st (field_args field));
          args = map (\<lambda>arg. Argument (arg_name arg) (getArgumentName (arg_name arg) path))
                   (field_args field)
      in if \<not> isScalarType S namedType
         then (case resolveSelectionSet n S type namedType models firstCall
                      (path @ [field_name field]) ignore st1 of
                 None \<Rightarrow> None
               | Some (ss, st2) \<Rightarrow> Some (Field (field_name field) (Some args) ss, st2))
         else Some (Field (field_name field) (Some args) None, st1))"

text \<open>
  \<open>typeMap[kind]\<close>: the root type of the operation kind, \<open>undefined\<close> when the schema has
  none.
\<close>

fun typeMap :: "schema \<Rightarrow> operation_kind \<Rightarrow> string option" where
  "typeMap S Query = queryType S"
| "typeMap S Mutation = mutationType S"
| "typeMap S Subscription = subscriptionType S"

text \<open>Reading a property of \<open>undefined\<close> throws a \<open>TypeError\<close>.\<close>

datatype synth_error = TypeError

definition buildDocumentNode ::
    "nat \<Rightarrow> schema \<Rightarrow> string \<Rightarrow> operation_kind \<Rightarrow> string list \<Rightarrow> string list
       \<Rightarrow> synth_state \<Rightarrow> ((synth_error + document) \<times> synth_state) option" where
  "buildDocumentNode n S fieldName kind models ignore st =
     (case typeMap S kind of
        None \<Rightarrow> Some (Inl TypeError, st)
      | Some type \<Rightarrow>
          (case find (\<lambda>f. field_name f = fieldName) (getFields S type) of
             None \<Rightarrow> Some (Inl TypeError, st)
           | Some field \<Rightarrow>
               (let operationName = buildOperationName (fieldName @ ''_'' @ kind_string kind);
                    st1 = foldl (\<lambda>s arg. addOperationVariable (resolveVariable arg None) s)
                            st (field_args field)
                in case resolveField n S type field models True [] ignore st1 of
                     None \<Rightarrow> None
                   | Some (sel, st2) \<Rightarrow>
                       Some (Inr \<lparr>definitions =
                                    [\<lparr>operation = kind, op_name = operationName,
                                      variableDefinitions = [], selectionSet = [sel]\<rparr>]\<rparr>,
                             st2))))"

text \<open>
  \<open>buildOperation\<close> attaches the collected variables to \<open>document.definitions[0]\<close>. When
  \<open>buildDocumentNode\<close> throws, the second reset is not reached.
\<close>

definition buildOperation ::
    "nat \<Rightarrow> schema \<Rightarrow> operation_kind \<Rightarrow> string \<Rightarrow> string list \<Rightarrow> string list
       \<Rightarrow> synth_state \<Rightarrow> ((synth_error + document) \<times> synth_state) option" where
  "buildOperation n S kind field models ignore st =
     (case buildDocumentNode n S field kind models ignore (resetOperationVariables st) of
        None \<Rightarrow> None
      | Some (Inl e, st1) \<Rightarrow> Some (Inl e, st1)
      | Some (Inr doc, st1) \<Rightarrow>
          (case definitions doc of
             [] \<Rightarrow> Some (Inl TypeError, st1)
           | d # ds \<Rightarrow>
               Some (Inr (doc\<lparr>definitions :=
                                d\<lparr>variableDefinitions := operationVariables st1\<rparr> # ds\<rparr>),
                     resetOperationVariables st1)))"

text \<open>
  The state of a freshly loaded module: \<open>operationVariables = []\<close> and \<open>visitedTypes = {}\<close>,
  an object with no property of its own.
\<close>

definition initial_synth_state :: synth_state where
  "initial_synth_state =
     \<lparr>operationVariables = [],
      visitedTypes = (\<lambda>key. key \<in> set inherited_object_properties)\<rparr>"

section \<open>The subscription manager\<close>

text \<open>
  \<open>start\<close>, \<open>stop\<close> and \<open>update\<close> are functions from the manager's state to an outcome
  and the state after it: a thrown error (a rejected promise) is the outcome \<open>Inl\<close>. Each
  call runs to its end on the state it is given; the interleaving of other requests at
  an \<open>await\<close> is not part of the model. The identifier that \<open>uuid()\<close> returns is an
  argument of \<open>start\<close> and \<open>update\<close>.

  Values of the host language, as far as the manager handles them: the supplied variable
  values, and what reading a property of an array gives.
\<close>

datatype js_value = JString string | JNumber int | JBool bool | JInherited string

record start_event =
  ev_subscription :: string
  ev_variables :: "string \<rightharpoonup> js_value"
  ev_url :: string

record update_event =
  up_id :: string
  up_variables :: "string \<rightharpoonup> js_value"

record built_operation =
  operationName :: string
  op_document :: document
  op_variables :: "variable_definition list"

text \<open>
  The stream handle of a session. \<open>has_return\<close> says whether the iterator has a \<open>return\<close>
  method (the stream supports cancellation).
\<close>

record async_iterator =
  handle :: nat
  has_return :: bool

record stored_client =
  client_name :: string
  client_url :: string
  client_iterator :: async_iterator

record execution_result =
  result_data :: "js_value option"
  result_errors :: "string list"

text \<open>What \<open>subscribe\<close> resolves to: an asynchronous stream or an immediate result.\<close>

datatype execution = Stream async_iterator | Immediate execution_result

datatype context_setting = ContextFn "string \<times> string \<Rightarrow> string" | ContextValue string

record sofa =
  sofa_schema :: schema
  sofa_models :: "string list"
  sofa_ignore :: "string list"
  sofa_context :: context_setting

text \<open>
  The manager's surroundings: the \<open>sofa\<close> object; the two functions it calls that are not
  part of the sources, \<open>subscribe\<close> of the \<open>graphql\<close> package and the coercion of a present
  value that \<open>parseVariable\<close> performs; and the property names that an array of the
  runtime inherits from its prototype chain.
\<close>

record env =
  the_sofa :: sofa
  subscribe ::
    "schema \<Rightarrow> document \<Rightarrow> string \<Rightarrow> (string \<rightharpoonup> js_value) \<Rightarrow> string \<Rightarrow> execution"
  coerce :: "schema \<Rightarrow> variable_definition \<Rightarrow> js_value \<Rightarrow> js_value"
  array_inherits :: "string list"

text \<open>
  The manager's two maps, and the handles of the iterators whose \<open>return()\<close> has been
  called, in call order.
\<close>

record manager =
  operations :: "string \<rightharpoonup> built_operation"
  clients :: "string \<rightharpoonup> stored_client"
  returned :: "nat list"

text \<open>
  The errors the manager throws. The source throws plain \<open>Error\<close> objects; \<open>message\<close>
  gives their texts.
\<close>

datatype error = UnknownSubscriptionField string | UnknownSessionId string | JsTypeError

fun message :: "error \<Rightarrow> string" where
  "message (UnknownSubscriptionField name) = ''Subscription '' @ [CHR 0x27] @ name @ [CHR 0x27] @ '' is not available''"
| "message (UnknownSessionId ident) = ''Subscription with ID '' @ [CHR 0x27] @ ident @ [CHR 0x27] @ '' does not exist''"
| "message JsTypeError = ''TypeError''"

text \<open>
  Modelled from the spec: \<open>parseVariable\<close> of \<open>./parse\<close>, which is not among the sources.
  The spec: supplied values are "coerced per schema, skipping any variable whose supplied
  value is absent". An absent value stays absent; a present one is coerced.
\<close>

definition parseVariable ::
    "env \<Rightarrow> js_value option \<Rightarrow> variable_definition \<Rightarrow> schema \<Rightarrow> js_value option" where
  "parseVariable e v variable S = map_option (coerce e S variable) v"

text \<open>
  Reading the property \<open>key\<close> of an array: \<open>length\<close> is its own property, the names in
  \<open>inherits\<close> come from the prototype chain, any other name gives \<open>undefined\<close>. (Index keys
  are left out: a variable name never starts with a digit.)
\<close>

definition array_property :: "string list \<Rightarrow> 'a list \<Rightarrow> string \<rightharpoonup> js_value" where
  "array_property inherits xs key =
     (if key = ''length'' then Some (JNumber (int (length xs)))
      else if key \<in> set inherits then Some (JInherited key)
      else None)"

text \<open>
  The \<open>reduce\<close> at the head of \<open>execute\<close>: \<open>variables\<close> is whatever object \<open>execute\<close> was
  given, read by property name; \<open>name\<close> is the subscription field's name.
\<close>

definition variableValues ::
    "env \<Rightarrow> string \<Rightarrow> (string \<rightharpoonup> js_value) \<Rightarrow> variable_definition list
       \<Rightarrow> (string \<rightharpoonup> js_value)" where
  "variableValues e name variables variableNodes =
     foldl (\<lambda>values variable.
              case parseVariable e (variables (var_name variable)) variable
                     (sofa_schema (the_sofa e)) of
                None \<Rightarrow> values
              | Some v \<Rightarrow> values(name \<mapsto> v))
       Map.empty variableNodes"

text \<open>\<open>isContextFn(this.sofa.context) ? await this.sofa.context({ req, res }) : this.sofa.context\<close>\<close>

definition resolve_context :: "env \<Rightarrow> string \<times> string \<Rightarrow> string" where
  "resolve_context e rr =
     (case sofa_context (the_sofa e) of ContextFn f \<Rightarrow> f rr | ContextValue c \<Rightarrow> c)"

text \<open>
  \<open>execute\<close> returns the immediate result, or nothing after it has stored a live stream.
  The pump that \<open>forAwaitEach\<close> starts is detached; its two callbacks are \<open>pump_completed\<close>
  and \<open>pump_failed\<close> below.
\<close>

definition execute ::
    "env \<Rightarrow> string \<Rightarrow> string \<Rightarrow> string \<Rightarrow> document \<Rightarrow> string \<Rightarrow> (string \<rightharpoonup> js_value)
       \<Rightarrow> string \<times> string \<Rightarrow> manager \<Rightarrow> (error + execution_result option) \<times> manager" where
  "execute e ident name url doc opName variables rr m =
     (case operations m name of
        None \<Rightarrow> (Inl JsTypeError, m)
      | Some built \<Rightarrow>
          (let vals = variableValues e name variables (op_variables built);
               C = resolve_context e rr
           in case subscribe e (sofa_schema (the_sofa e)) doc opName vals C of
                Stream it \<Rightarrow>
                  (Inr None,
                   m\<lparr>clients := (clients m)(ident \<mapsto>
                        \<lparr>client_name = name, client_url = url, client_iterator = it\<rparr>)\<rparr>)
              | Immediate r \<Rightarrow> (Inr (Some r), m)))"

datatype start_response = Started string | Result execution_result

text \<open>
  \<open>ident\<close> is the value that \<open>uuid()\<close> returns in this call. \<open>start\<close> hands \<open>execute\<close> the
  \<open>variables\<close> it has just read from the stored operation, the array of variable
  definitions; \<open>event.variables\<close> is not read.
\<close>

definition start ::
    "env \<Rightarrow> string \<Rightarrow> start_event \<Rightarrow> string \<times> string \<Rightarrow> manager
       \<Rightarrow> (error + start_response) \<times> manager" where
  "start e ident event rr m =
     (let name = ev_subscription event
      in case operations m name of
           None \<Rightarrow> (Inl (UnknownSubscriptionField name), m)
         | Some built \<Rightarrow>
             (case execute e ident name (ev_url event) (op_document built)
                     (operationName built)
                     (array_property (array_inherits e) (op_variables built)) rr m of
                (Inl err, m1) \<Rightarrow> (Inl err, m1)
              | (Inr (Some r), m1) \<Rightarrow> (Inr (Result r), m1)
              | (Inr None, m1) \<Rightarrow> (Inr (Started ident), m1)))"

definition stop :: "string \<Rightarrow> manager \<Rightarrow> (error + string) \<times> manager" where
  "stop ident m =
     (case clients m ident of
        None \<Rightarrow> (Inl (UnknownSessionId ident), m)
      | Some execution \<Rightarrow>
          (let m1 = (if has_return (client_iterator execution)
                     then m\<lparr>returned := returned m @ [handle (client_iterator execution)]\<rparr>
                     else m)
           in (Inr ident, m1\<lparr>clients := (clients m1)(ident := None)\<rparr>)))"

text \<open>
  \<open>update\<close> does not wait for the promise of \<open>stop\<close> and drops its outcome; \<open>stop\<close> has no
  \<open>await\<close>, so its whole body has run when \<open>start\<close> is called. \<open>ident\<close> is the value of
  \<open>uuid()\<close> in that \<open>start\<close>.
\<close>

definition update ::
    "env \<Rightarrow> string \<Rightarrow> update_event \<Rightarrow> string \<times> string \<Rightarrow> manager
       \<Rightarrow> (error + start_response) \<times> manager" where
  "update e ident event rr m =
     (case clients m (up_id event) of
        None \<Rightarrow> (Inl (UnknownSessionId (up_id event)), m)
      | Some c \<Rightarrow>
          start e ident
            \<lparr>ev_subscription = client_name c, ev_variables = up_variables event,
             ev_url = client_url c\<rparr>
            rr (snd (stop (up_id event) m)))"

text \<open>
  What a callback of the pump leaves behind besides the manager's state: the rejections
  of promises that nothing handles, and the lines it has logged.
\<close>

record pump_trace =
  unhandled :: "error list"
  console :: "string list"

text \<open>
  The callbacks of the pump: \<open>() => { this.stop(id); }\<close> when the stream has completed, and
  \<open>e => { console.log(e); this.stop(id); }\<close> when the stream or a delivery has failed.
  Both return nothing and drop the promise of \<open>stop\<close>: where \<open>stop\<close> throws, its rejection
  stays unhandled.
\<close>

definition pump_completed :: "string \<Rightarrow> manager \<Rightarrow> pump_trace \<times> manager" where
  "pump_completed ident m =
     (case stop ident m of
        (Inl err, m1) \<Rightarrow> (\<lparr>unhandled = [err], console = []\<rparr>, m1)
      | (Inr r, m1) \<Rightarrow> (\<lparr>unhandled = [], console = []\<rparr>, m1))"

definition pump_failed :: "string \<Rightarrow> string \<Rightarrow> manager \<Rightarrow> pump_trace \<times> manager" where
  "pump_failed e ident m =
     (case stop ident m of
        (Inl err, m1) \<Rightarrow> (\<lparr>unhandled = [err], console = [e]\<rparr>, m1)
      | (Inr r, m1) \<Rightarrow> (\<lparr>unhandled = [], console = [e]\<rparr>, m1))"

text \<open>
  Modelled from the spec: \<open>getOperationInfo\<close> of \<open>./ast\<close>, which is not among the sources:
  the name and the variable definitions of the document's operation.
\<close>

definition getOperationInfo :: "document \<Rightarrow> (string \<times> variable_definition list) option" where
  "getOperationInfo doc =
     (case definitions doc of
        [] \<Rightarrow> None
      | d # _ \<Rightarrow> Some (op_name d, variableDefinitions d))"

text \<open>
  The loop of \<open>buildOperations\<close> over the fields of the subscription type; \<open>n\<close> bounds the
  nesting of calls in each synthesis.
\<close>

fun buildOperations_loop ::
    "nat \<Rightarrow> sofa \<Rightarrow> gql_field list \<Rightarrow> (string \<rightharpoonup> built_operation) \<Rightarrow> synth_state
       \<Rightarrow> ((synth_error + (string \<rightharpoonup> built_operation)) \<times> synth_state) option" where
  "buildOperations_loop n so [] ops st = Some (Inr ops, st)"
| "buildOperations_loop n so (f # fs) ops st =
     (case buildOperation n (sofa_schema so) Subscription (field_name f) (sofa_models so)
             (sofa_ignore so) st of
        None \<Rightarrow> None
      | Some (Inl err, st1) \<Rightarrow> Some (Inl err, st1)
      | Some (Inr doc, st1) \<Rightarrow>
          (case getOperationInfo doc of
             None \<Rightarrow> Some (Inl TypeError, st1)
           | Some (opName, vars) \<Rightarrow>
               buildOperations_loop n so fs
                 (ops(field_name f \<mapsto>
                    \<lparr>operationName = opName, op_document = doc, op_variables = vars\<rparr>))
                 st1))"

definition buildOperations ::
    "nat \<Rightarrow> sofa \<Rightarrow> synth_state
       \<Rightarrow> ((synth_error + (string \<rightharpoonup> built_operation)) \<times> synth_state) option" where
  "buildOperations n so st =
     (case subscriptionType (sofa_schema so) of
        None \<Rightarrow> Some (Inr Map.empty, st)
      | Some subscription \<Rightarrow>
          buildOperations_loop n so (getFields (sofa_schema so) subscription) Map.empty st)"

text \<open>The constructor: both maps empty, then \<open>buildOperations\<close>.\<close>

definition new_manager ::
    "nat \<Rightarrow> sofa \<Rightarrow> synth_state \<Rightarrow> ((synth_error + manager) \<times> synth_state) option" where
  "new_manager n so st =
     (case buildOperations n so st of
        None \<Rightarrow> None
      | Some (Inl err, st1) \<Rightarrow> Some (Inl err, st1)
      | Some (Inr ops, st1) \<Rightarrow>
          Some (Inr \<lparr>operations = ops, clients = Map.empty, returned = []\<rparr>, st1))"

section \<open>Notions used in the statements\<close>


text \<open>The fields of the schema's subscription type; none when it has no such type.\<close>

definition subscription_fields :: "schema \<Rightarrow> gql_field list" where
  "subscription_fields S =
     (case subscriptionType S of None \<Rightarrow> [] | Some subscription \<Rightarrow> getFields S subscription)"

text \<open>
  What \<open>subscribe\<close> resolves to when \<open>start\<close> runs the stored operation \<open>built\<close> of the
  field \<open>name\<close>.
\<close>

definition subscribed :: "env \<Rightarrow> string \<Rightarrow> built_operation \<Rightarrow> string \<times> string \<Rightarrow> execution" where
  "subscribed e name built rr =
     subscribe e (sofa_schema (the_sofa e)) (op_document built) (operationName built)
       (variableValues e name (array_property (array_inherits e) (op_variables built))
          (op_variables built))
       (resolve_context e rr)"

text \<open>
  The synthesizer's state along a call that returns: variables are appended, no key
  reads truthy that did not before, and only keys that name a type of the schema change.
\<close>

definition grows :: "schema \<Rightarrow> synth_state \<Rightarrow> synth_state \<Rightarrow> bool" where
  "grows S st st' =
     ((\<exists>ws. operationVariables st' = operationVariables st @ ws)
      \<and> visitedTypes st' \<le> visitedTypes st
      \<and> (\<forall>key. key \<notin> fst ` set (types S) \<longrightarrow> visitedTypes st' key = visitedTypes st key))"

section \<open>Example schemas and sessions\<close>

definition user_fields :: "gql_field list" where
  "user_fields =
     [\<lparr>field_name = ''id'', field_type = NamedT ''ID'', field_args = []\<rparr>,
      \<lparr>field_name = ''name'', field_type = NamedT ''String'', field_args = []\<rparr>]"

text \<open>
  \<open>subscription { messageAdded(roomId: ID!): Message }\<close> with
  \<open>Message { id text author: User }\<close>, for any fields of \<open>User\<close>.
\<close>

definition message_schema :: "gql_field list \<Rightarrow> schema" where
  "message_schema ufs =
     \<lparr>types =
        [(''ID'', ScalarType), (''String'', ScalarType),
         (''Subscription'', ObjectType
            [\<lparr>field_name = ''messageAdded'', field_type = NamedT ''Message'',
              field_args = [\<lparr>arg_name = ''roomId'', arg_type = NonNullT (NamedT ''ID'')\<rparr>]\<rparr>]),
         (''Message'', ObjectType
            [\<lparr>field_name = ''id'', field_type = NamedT ''ID'', field_args = []\<rparr>,
             \<lparr>field_name = ''text'', field_type = NamedT ''String'', field_args = []\<rparr>,
             \<lparr>field_name = ''author'', field_type = NamedT ''User'', field_args = []\<rparr>]),
         (''User'', ObjectType ufs)],
      queryType = None, mutationType = None, subscriptionType = Some ''Subscription''\<rparr>"

text \<open>
  \<open>subscription messageAddedSubscription($roomId: ID!)
     { messageAdded(roomId: $roomId) { id text author { id } } }\<close>
\<close>

definition message_document :: document where
  "message_document =
     \<lparr>definitions =
        [\<lparr>operation = Subscription, op_name = ''messageAddedSubscription'',
          variableDefinitions =
            [\<lparr>var_name = ''roomId'', var_type = NonNullTypeNode (NamedTypeNode ''ID'')\<rparr>],
          selectionSet =
            [Field ''messageAdded'' (Some [Argument ''roomId'' ''roomId''])
               (Some [Field ''id'' (Some []) None,
                      Field ''text'' (Some []) None,
                      Field ''author'' (Some []) (Some [Field ''id'' None None])])]\<rparr>]\<rparr>"

text \<open>
  \<open>A { id b: B }\<close> and \<open>B { id a: A }\<close> below the root field \<open>a: A\<close>; \<open>wrap\<close> is put
  around the types of \<open>b\<close> and \<open>a\<close> (nothing, or \<open>NonNullT\<close> for \<open>b: B!\<close> and \<open>a: A!\<close>).
\<close>

definition cyclic_schema :: "(gql_type \<Rightarrow> gql_type) \<Rightarrow> schema" where
  "cyclic_schema wrap =
     \<lparr>types =
        [(''ID'', ScalarType),
         (''Subscription'', ObjectType
            [\<lparr>field_name = ''a'', field_type = NamedT ''A'', field_args = []\<rparr>]),
         (''A'', ObjectType
            [\<lparr>field_name = ''id'', field_type = NamedT ''ID'', field_args = []\<rparr>,
             \<lparr>field_name = ''b'', field_type = wrap (NamedT ''B''), field_args = []\<rparr>]),
         (''B'', ObjectType
            [\<lparr>field_name = ''id'', field_type = NamedT ''ID'', field_args = []\<rparr>,
             \<lparr>field_name = ''a'', field_type = wrap (NamedT ''A''), field_args = []\<rparr>])],
      queryType = None, mutationType = None, subscriptionType = Some ''Subscription''\<rparr>"







text \<open>\<open>r: T1\<close>, \<open>T1 { g: T2 }\<close>, \<open>T2 { h(x: Int): Int }\<close>: an argument two levels below the root.\<close>

definition deep_schema :: schema where
  "deep_schema =
     \<lparr>types =
        [(''Int'', ScalarType),
         (''Subscription'', ObjectType
            [\<lparr>field_name = ''r'', field_type = NamedT ''T1'', field_args = []\<rparr>]),
         (''T1'', ObjectType
            [\<lparr>field_name = ''g'', field_type = NamedT ''T2'', field_args = []\<rparr>]),
         (''T2'', ObjectType
            [\<lparr>field_name = ''h'', field_type = NamedT ''Int'',
              field_args = [\<lparr>arg_name = ''x'', arg_type = NamedT ''Int''\<rparr>]\<rparr>])],
      queryType = None, mutationType = None, subscriptionType = Some ''Subscription''\<rparr>"

text \<open>
  \<open>subscription { ev: constructor }\<close> with \<open>constructor { id self(x: Int): constructor }\<close>: a
  type named like a property that every object inherits.
\<close>

definition constructor_schema :: schema where
  "constructor_schema =
     \<lparr>types =
        [(''ID'', ScalarType), (''Int'', ScalarType),
         (''Subscription'', ObjectType
            [\<lparr>field_name = ''ev'', field_type = NamedT ''constructor'', field_args = []\<rparr>]),
         (''constructor'', ObjectType
            [\<lparr>field_name = ''id'', field_type = NamedT ''ID'', field_args = []\<rparr>,
             \<lparr>field_name = ''self'', field_type = NamedT ''constructor'',
              field_args = [\<lparr>arg_name = ''x'', arg_type = NamedT ''Int''\<rparr>]\<rparr>])],
      queryType = None, mutationType = None, subscriptionType = Some ''Subscription''\<rparr>"

text \<open>The module state once \<open>visitedTypes.constructor\<close> has been written and set back.\<close>

definition constructor_written :: synth_state where
  "constructor_written =
     initial_synth_state\<lparr>visitedTypes :=
       (visitedTypes initial_synth_state)(''constructor'' := False)\<rparr>"

definition room_field :: gql_field where
  "room_field =
     \<lparr>field_name = ''messageAdded'', field_type = NamedT ''String'',
      field_args = [\<lparr>arg_name = ''room_id'', arg_type = NonNullT (NamedT ''ID'')\<rparr>]\<rparr>"

text \<open>\<open>subscription { messageAdded(room_id: ID!): String }\<close>\<close>

definition room_schema :: schema where
  "room_schema =
     \<lparr>types =
        [(''ID'', ScalarType), (''String'', ScalarType),
         (''Subscription'', ObjectType [room_field])],
      queryType = None, mutationType = None, subscriptionType = Some ''Subscription''\<rparr>"

definition room_document :: document where
  "room_document =
     \<lparr>definitions =
        [\<lparr>operation = Subscription, op_name = ''messageAddedSubscription'',
          variableDefinitions =
            [\<lparr>var_name = ''room_id'', var_type = NonNullTypeNode (NamedTypeNode ''ID'')\<rparr>],
          selectionSet =
            [Field ''messageAdded'' (Some [Argument ''room_id'' ''roomId'']) None]\<rparr>]\<rparr>"

definition message_operation :: built_operation where
  "message_operation =
     \<lparr>operationName = ''messageAddedSubscription'', op_document = message_document,
      op_variables =
        [\<lparr>var_name = ''roomId'', var_type = NonNullTypeNode (NamedTypeNode ''ID'')\<rparr>]\<rparr>"

definition example_sofa :: sofa where
  "example_sofa =
     \<lparr>sofa_schema = message_schema user_fields, sofa_models = [''User''], sofa_ignore = [],
      sofa_context = ContextValue ''context''\<rparr>"

definition live_stream :: async_iterator where
  "live_stream = \<lparr>handle = 1, has_return = True\<rparr>"

definition missing_roomId :: execution_result where
  "missing_roomId =
     \<lparr>result_data = None,
      result_errors = [''Variable $roomId of required type ID! was not provided.'']\<rparr>"

definition rejected :: execution_result where
  "rejected =
     \<lparr>result_data = None,
      result_errors = [''Subscription field must return Async Iterable.'']\<rparr>"

text \<open>
  Three ways \<open>subscribe\<close> can behave: it needs a value for the variable \<open>roomId\<close>, which the
  operation declares non-null; it always gives a stream; it always gives an error result.
\<close>

definition strict_subscribe ::
    "schema \<Rightarrow> document \<Rightarrow> string \<Rightarrow> (string \<rightharpoonup> js_value) \<Rightarrow> string \<Rightarrow> execution" where
  "strict_subscribe S doc opName vals C =
     (case vals ''roomId'' of None \<Rightarrow> Immediate missing_roomId | Some v \<Rightarrow> Stream live_stream)"

definition streaming_subscribe ::
    "schema \<Rightarrow> document \<Rightarrow> string \<Rightarrow> (string \<rightharpoonup> js_value) \<Rightarrow> string \<Rightarrow> execution" where
  "streaming_subscribe S doc opName vals C = Stream live_stream"

definition rejecting_subscribe ::
    "schema \<Rightarrow> document \<Rightarrow> string \<Rightarrow> (string \<rightharpoonup> js_value) \<Rightarrow> string \<Rightarrow> execution" where
  "rejecting_subscribe S doc opName vals C = Immediate rejected"

text \<open>What an array inherits from \<open>Array.prototype\<close> and \<open>Object.prototype\<close> (ECMAScript 2023).\<close>

definition array_prototype_chain :: "string list" where
  "array_prototype_chain =
     [''constructor'', ''at'', ''concat'', ''copyWithin'', ''fill'', ''find'', ''findIndex'',
      ''findLast'', ''findLastIndex'', ''lastIndexOf'', ''pop'', ''push'', ''reverse'',
      ''shift'', ''unshift'', ''slice'', ''sort'', ''splice'', ''includes'', ''indexOf'',
      ''join'', ''keys'', ''entries'', ''values'', ''forEach'', ''filter'', ''flat'',
      ''flatMap'', ''map'', ''every'', ''some'', ''reduce'', ''reduceRight'',
      ''toLocaleString'', ''toString'', ''toReversed'', ''toSorted'', ''toSpliced'', ''with'']
     @ inherited_object_properties"

definition example_env ::
    "(schema \<Rightarrow> document \<Rightarrow> string \<Rightarrow> (string \<rightharpoonup> js_value) \<Rightarrow> string \<Rightarrow> execution)
       \<Rightarrow> env" where
  "example_env sub =
     \<lparr>the_sofa = example_sofa, subscribe = sub, coerce = (\<lambda>S variable v. v),
      array_inherits = array_prototype_chain\<rparr>"

definition example_manager :: manager where
  "example_manager =
     \<lparr>operations = [''messageAdded'' \<mapsto> message_operation], clients = Map.empty,
      returned = []\<rparr>"

definition live_manager :: manager where
  "live_manager =
     example_manager\<lparr>clients := [''id-1'' \<mapsto>
        \<lparr>client_name = ''messageAdded'', client_url = ''https://cb'',
         client_iterator = live_stream\<rparr>]\<rparr>"

definition stopped_manager :: manager where
  "stopped_manager = live_manager\<lparr>clients := Map.empty, returned := [1]\<rparr>"

definition example_event :: start_event where
  "example_event =
     \<lparr>ev_subscription = ''messageAdded'', ev_variables = [''roomId'' \<mapsto> JString ''42''],
      ev_url = ''https://cb''\<rparr>"

definition example_update :: update_event where
  "example_update = \<lparr>up_id = ''id-1'', up_variables = [''roomId'' \<mapsto> JString ''43'']\<rparr>"

section \<open>Facts about the synthesizer\<close>

lemma camel_examples:
  "camel ''roomId'' = ''roomId''"
  "camel ''room_id'' = ''roomId''"
  "camel ''messageAdded_subscription'' = ''messageAddedSubscription''"
  "camel ''postCommentsFirst'' = ''postCommentsFirst''"
  "camel ''post_comments_first'' = ''postCommentsFirst''"
  "camel ''post_subscription'' = ''postSubscription''"
  "camel ''postAdded_subscription'' = ''postAddedSubscription''"
  "camel ''a_subscription'' = ''aSubscription''"
  "camel ''r_subscription'' = ''rSubscription''"
  "camel ''r_g_g_h_x'' = ''rGGHX''"
  "camel ''ev_subscription'' = ''evSubscription''"
  "camel ''ev_self_x'' = ''evSelfX''"
  by code_simp+

lemma getArgumentName_root: "getArgumentName name [] = camel name"
  by (simp add: getArgumentName_def)

lemma foldl_addOperationVariable [simp]:
  "foldl (\<lambda>s arg. addOperationVariable (g arg) s) st xs
     = st\<lparr>operationVariables := operationVariables st @ map g xs\<rparr>"
  by (induction xs arbitrary: st) (simp_all add: addOperationVariable_def)

lemma if_foldl_addOperationVariable [simp]:
  "(if b then st else foldl (\<lambda>s arg. addOperationVariable (g arg) s) st xs)
     = (if b then st else st\<lparr>operationVariables := operationVariables st @ map g xs\<rparr>)"
  by simp

lemma find_field_name: "find (\<lambda>f. field_name f = n) fs = Some f \<Longrightarrow> field_name f = n"
  by (auto simp: find_Some_iff)

subsection \<open>The state grows\<close>

lemma grows_refl: "grows S st st"
  by (simp add: grows_def)

lemma grows_trans: "grows S a b \<Longrightarrow> grows S b c \<Longrightarrow> grows S a c"
  unfolding grows_def by (auto intro: order_trans)

lemma add_vars_grows: "grows S st (st\<lparr>operationVariables := operationVariables st @ ws\<rparr>)"
  by (simp add: grows_def)


lemma lookup_type_name: "lookup_type S t = Some td \<Longrightarrow> t \<in> fst ` set (types S)"
  by (auto simp: lookup_type_def dest!: map_of_SomeD intro: rev_image_eqI)

lemma mark_unmark_grows:
  assumes "t \<in> fst ` set (types S)"
    and "grows S (st\<lparr>visitedTypes := set_visited t True (visitedTypes st)\<rparr>) st2"
  shows "grows S st (st2\<lparr>visitedTypes := set_visited t False (visitedTypes st2)\<rparr>)"
  using assms by (auto simp: grows_def le_fun_def set_visited_def split: if_splits)

lemma map_st_grows:
  assumes "\<And>x s y s'. f x s = Some (y, s') \<Longrightarrow> grows S s s'"
  shows "map_st f xs st = Some (ys, st') \<Longrightarrow> grows S st st'"
proof (induction xs arbitrary: st ys)
  case Nil
  then show ?case by (simp add: grows_refl)
next
  case (Cons x xs)
  from Cons.prems obtain y st1 ys' where
    a: "f x st = Some (y, st1)" and b: "map_st f xs st1 = Some (ys', st')"
    by (auto split: option.splits)
  from assms[OF a] Cons.IH[OF b] show ?case by (rule grows_trans)
qed


text \<open>
  Both functions at once, by induction on the bound: \<open>resolveField\<close> at \<open>Suc n\<close> calls
  \<open>resolveSelectionSet\<close> at \<open>n\<close>, which calls \<open>resolveField\<close> below it.
\<close>

lemma resolve_grows:
  "(\<forall>parent ty models fc path ignore st r st'.
      resolveSelectionSet n S parent ty models fc path ignore st = Some (r, st')
        \<longrightarrow> grows S st st')
   \<and> (\<forall>ty f models fc path ignore st r st'.
      resolveField n S ty f models fc path ignore st = Some (r, st') \<longrightarrow> grows S st st')"
proof (induction n)
  case 0
  show ?case by simp
next
  case (Suc n)
  have F: "\<And>ty f models fc path ignore st r st'.
      resolveField n S ty f models fc path ignore st = Some (r, st') \<Longrightarrow> grows S st st'"
    using Suc.IH by blast
  have SS: "\<And>parent ty models fc path ignore st r st'.
      resolveSelectionSet n S parent ty models fc path ignore st = Some (r, st')
        \<Longrightarrow> grows S st st'"
    using Suc.IH by blast
  have inner: "\<And>t models path ignore s sels s1.
      map_st (\<lambda>f s'. resolveField n S t f models False (path @ [field_name f]) ignore s')
        (getFields S t) s = Some (sels, s1) \<Longrightarrow> grows S s s1"
    by (erule map_st_grows[rotated]) (erule F)
  have A: "grows S st st'"
    if "resolveSelectionSet (Suc n) S parent ty models fc path ignore st = Some (r, st')"
    for parent ty models fc path ignore st r st'
  proof (cases "lookup_type S ty")
    case None
    with that show ?thesis by (simp add: grows_refl)
  next
    case (Some td)
    show ?thesis
    proof (cases td)
      case (UnionType ts)
      with Some that obtain frags where
        m: "map_st (\<lambda>t s. case map_st (\<lambda>f s'. resolveField n S t f models False
                                     (path @ [field_name f]) ignore s') (getFields S t) s of
                       None \<Rightarrow> None
                     | Some (sels, s1) \<Rightarrow> Some (InlineFragment t sels, s1)) ts st
              = Some (frags, st')"
        by (auto split: option.splits)
      show ?thesis
        by (rule map_st_grows[OF _ m]) (auto split: option.splits dest: inner)
    next
      case (ObjectType fs)
      show ?thesis
      proof (cases "\<not> fc \<and> ty \<in> set models
                     \<and> \<not> (ty \<in> set ignore \<or> (parent @ ''.'' @ last_of_path path) \<in> set ignore)")
        case True
        with Some ObjectType that show ?thesis by (auto simp: grows_refl)
      next
        case False
        with Some ObjectType that obtain sels st2 where
          m: "map_st (\<lambda>f s. resolveField n S ty f models False (path @ [field_name f]) ignore s)
                (filter (\<lambda>f. \<not> visitedTypes st (type_string (field_type f))) fs)
                (st\<lparr>visitedTypes := set_visited ty True (visitedTypes st)\<rparr>) = Some (sels, st2)"
          and e: "st' = st2\<lparr>visitedTypes := set_visited ty False (visitedTypes st2)\<rparr>"
          by (auto simp: Let_def split: option.splits if_splits)
        have "grows S (st\<lparr>visitedTypes := set_visited ty True (visitedTypes st)\<rparr>) st2"
          by (rule map_st_grows[OF _ m]) (erule F)
        then show ?thesis unfolding e
          by (rule mark_unmark_grows[OF lookup_type_name[OF Some]])
      qed
    qed (use Some that in \<open>auto simp: grows_refl\<close>)
  qed
  have B: "grows S st st'"
    if "resolveField (Suc n) S ty f models fc path ignore st = Some (r, st')"
    for ty f models fc path ignore st r st'
  proof -
    let ?st1 = "if fc then st
                else st\<lparr>operationVariables := operationVariables st @
                          map (\<lambda>arg. resolveVariable arg
                                       (Some (getArgumentName (arg_name arg) path)))
                            (field_args f)\<rparr>"
    have g1: "grows S st ?st1" by (simp add: grows_refl add_vars_grows)
    show ?thesis
    proof (cases "isScalarType S (getNamedType (field_type f))")
      case True
      with that have "st' = ?st1" by (auto simp: Let_def)
      with g1 show ?thesis by simp
    next
      case False
      with that obtain ss where
        "resolveSelectionSet n S ty (getNamedType (field_type f)) models fc
           (path @ [field_name f]) ignore ?st1 = Some (ss, st')"
        by (auto simp: Let_def split: option.splits)
      from SS[OF this] g1 show ?thesis using grows_trans by blast
    qed
  qed
  from A B show ?case by blast
qed


subsection \<open>The shape of what \<open>resolveField\<close> returns\<close>

lemma resolveField_shape:
  assumes "resolveField n S ty f models fc path ignore st = Some (sel, st')"
  shows "\<exists>ss rest. sel = Field (field_name f)
             (Some (map (\<lambda>a. Argument (arg_name a) (getArgumentName (arg_name a) path))
                      (field_args f))) ss
          \<and> operationVariables st' = operationVariables st @
               (if fc then []
                else map (\<lambda>a. resolveVariable a (Some (getArgumentName (arg_name a) path)))
                       (field_args f))
               @ rest"
proof (cases n)
  case 0
  with assms show ?thesis by simp
next
  case (Suc k)
  let ?st1 = "if fc then st
              else st\<lparr>operationVariables := operationVariables st @
                        map (\<lambda>arg. resolveVariable arg
                                     (Some (getArgumentName (arg_name arg) path)))
                          (field_args f)\<rparr>"
  show ?thesis
  proof (cases "isScalarType S (getNamedType (field_type f))")
    case True
    with assms Suc show ?thesis by (auto simp: Let_def)
  next
    case False
    with assms Suc obtain ss where
      r: "resolveSelectionSet k S ty (getNamedType (field_type f)) models fc
           (path @ [field_name f]) ignore ?st1 = Some (ss, st')"
      and s: "sel = Field (field_name f)
             (Some (map (\<lambda>a. Argument (arg_name a) (getArgumentName (arg_name a) path))
                      (field_args f))) ss"
      by (auto simp: Let_def split: option.splits)
    from r have "grows S ?st1 st'" using resolve_grows[of k S] by blast
    then obtain rest where "operationVariables st' = operationVariables ?st1 @ rest"
      by (auto simp: grows_def)
    with s show ?thesis by auto
  qed
qed





subsection \<open>The document that \<open>buildOperation\<close> returns\<close>

text \<open>What \<open>buildOperation\<close> returns, in terms of the first call of \<open>resolveField\<close>.\<close>

lemma buildOperation_run:
  assumes "typeMap S kind = Some rt"
    and "find (\<lambda>f. field_name f = fieldName) (getFields S rt) = Some field"
    and "buildOperation n S kind fieldName models ignore st = Some (r, st')"
  shows "\<exists>sel st2.
           resolveField n S rt field models True [] ignore
             (st\<lparr>operationVariables := map (\<lambda>a. resolveVariable a None) (field_args field)\<rparr>)
             = Some (sel, st2)
         \<and> r = Inr \<lparr>definitions =
                  [\<lparr>operation = kind,
                    op_name = buildOperationName (fieldName @ ''_'' @ kind_string kind),
                    variableDefinitions = operationVariables st2,
                    selectionSet = [sel]\<rparr>]\<rparr>
         \<and> st' = resetOperationVariables st2"
  using assms
  by (auto simp: buildOperation_def buildDocumentNode_def resetOperationVariables_def Let_def
      split: option.splits)

lemma buildOperation_root:
  assumes "typeMap S kind = Some rt"
    and "find (\<lambda>f. field_name f = fieldName) (getFields S rt) = Some field"
    and "buildOperation n S kind fieldName models ignore st = Some (r, st')"
  shows "\<exists>ss rest. r = Inr \<lparr>definitions =
            [\<lparr>operation = kind,
              op_name = buildOperationName (fieldName @ ''_'' @ kind_string kind),
              variableDefinitions = map (\<lambda>a. resolveVariable a None) (field_args field) @ rest,
              selectionSet =
                [Field fieldName
                   (Some (map (\<lambda>a. Argument (arg_name a) (camel (arg_name a)))
                            (field_args field)))
                   ss]\<rparr>]\<rparr>"
proof -
  from buildOperation_run[OF assms] obtain sel st2 where
    rf: "resolveField n S rt field models True [] ignore
           (st\<lparr>operationVariables := map (\<lambda>a. resolveVariable a None) (field_args field)\<rparr>)
           = Some (sel, st2)"
    and r: "r = Inr \<lparr>definitions =
            [\<lparr>operation = kind,
              op_name = buildOperationName (fieldName @ ''_'' @ kind_string kind),
              variableDefinitions = operationVariables st2,
              selectionSet = [sel]\<rparr>]\<rparr>"
    by blast
  from resolveField_shape[OF rf] obtain ss rest where
    "sel = Field (field_name field)
             (Some (map (\<lambda>a. Argument (arg_name a) (getArgumentName (arg_name a) []))
                      (field_args field))) ss"
    and "operationVariables st2 = map (\<lambda>a. resolveVariable a None) (field_args field) @ rest"
    by auto
  with r find_field_name[OF assms(2)] show ?thesis
    by (simp add: getArgumentName_root)
qed



section \<open>Claims about the synthesizer\<close>

text \<open>
  C6. For the schema \<open>subscription { messageAdded(roomId: ID!): Message }\<close>, where
  \<open>Message\<close> has the fields \<open>id\<close>, \<open>text\<close> and \<open>author: User\<close> and \<open>User\<close> is in the Model
  Set (and not ignored), synthesizing the subscription operation for \<open>messageAdded\<close>
  returns exactly the document \<open>message_document\<close>: the selection
  \<open>messageAdded(roomId: $roomId) { id text author { id } }\<close> and the one variable
  definition \<open>roomId: ID!\<close>. This holds whatever fields \<open>User\<close> has and for every bound
  of at least four nested calls.
\<close>

theorem message_added_document:
  assumes "''User'' \<in> set models"
    and "''User'' \<notin> set ignore"
    and "''Message.author'' \<notin> set ignore"
  shows "buildOperation (Suc (Suc (Suc (Suc n)))) (message_schema ufs) Subscription
           ''messageAdded'' models ignore initial_synth_state
         = Some (Inr message_document, initial_synth_state)"
proof -
  have root: "find (\<lambda>f. field_name f = ''messageAdded'')
                (getFields (message_schema ufs) ''Subscription'')
       = Some \<lparr>field_name = ''messageAdded'', field_type = NamedT ''Message'',
               field_args = [\<lparr>arg_name = ''roomId'', arg_type = NonNullT (NamedT ''ID'')\<rparr>]\<rparr>"
    by (simp add: message_schema_def getFields_def lookup_type_def)
  have kinds: "\<not> isScalarType (message_schema ufs) ''Message''"
    "\<not> isScalarType (message_schema ufs) ''User''"
    "isScalarType (message_schema ufs) ''ID''"
    "isScalarType (message_schema ufs) ''String''"
    by (simp_all add: message_schema_def isScalarType_def lookup_type_def)
  have types: "lookup_type (message_schema ufs) ''Message'' = Some (ObjectType
            [\<lparr>field_name = ''id'', field_type = NamedT ''ID'', field_args = []\<rparr>,
             \<lparr>field_name = ''text'', field_type = NamedT ''String'', field_args = []\<rparr>,
             \<lparr>field_name = ''author'', field_type = NamedT ''User'', field_args = []\<rparr>])"
    "lookup_type (message_schema ufs) ''User'' = Some (ObjectType ufs)"
    by (simp_all add: message_schema_def lookup_type_def)
  have sub: "subscriptionType (message_schema ufs) = Some ''Subscription''"
    by (simp add: message_schema_def)
  show ?thesis
    using assms
    by (simp add: buildOperation_def buildDocumentNode_def sub root kinds types
        initial_synth_state_def set_visited_def
        inherited_object_properties_def resetOperationVariables_def addOperationVariable_def
        resolveVariable_def getArgumentName_def buildOperationName_def camel_examples
        last_of_path_def message_document_def Let_def fun_eq_iff)
qed

text \<open>C6 at the Model Set \<open>[User]\<close>, no ignored name, \<open>User { id name }\<close> and the bound 4.\<close>

theorem message_added_document_witness:
  "''User'' \<in> set [''User''] \<and> ''User'' \<notin> set [] \<and> ''Message.author'' \<notin> set []
   \<and> buildOperation (Suc (Suc (Suc (Suc 0)))) (message_schema user_fields) Subscription
        ''messageAdded'' [''User''] [] initial_synth_state
      = Some (Inr message_document, initial_synth_state)"
  using message_added_document[of "[''User'']" "[]" 0 user_fields] by simp

subsection \<open>Cycles\<close>

lemma nonnull_cycle_types:
  "lookup_type (cyclic_schema NonNullT) ''A'' = Some (ObjectType
     [\<lparr>field_name = ''id'', field_type = NamedT ''ID'', field_args = []\<rparr>,
      \<lparr>field_name = ''b'', field_type = NonNullT (NamedT ''B''), field_args = []\<rparr>])"
  "lookup_type (cyclic_schema NonNullT) ''B'' = Some (ObjectType
     [\<lparr>field_name = ''id'', field_type = NamedT ''ID'', field_args = []\<rparr>,
      \<lparr>field_name = ''a'', field_type = NonNullT (NamedT ''A''), field_args = []\<rparr>])"
  "lookup_type (cyclic_schema NonNullT) ''ID'' = Some ScalarType"
  by (simp_all add: cyclic_schema_def lookup_type_def)

text \<open>
  With \<open>b: B!\<close> and \<open>a: A!\<close> the filter looks up the keys \<open>B!\<close> and \<open>A!\<close>, which are never
  marked (the marks are under \<open>A\<close> and \<open>B\<close>): no bound on the nesting is enough.
\<close>

lemma nonnull_cycle_exceeds_every_bound:
  "\<not> visitedTypes st ''A!'' \<Longrightarrow> \<not> visitedTypes st ''B!'' \<Longrightarrow>
     resolveSelectionSet n (cyclic_schema NonNullT) parent ''A'' [] fc path [] st = None
   \<and> resolveSelectionSet n (cyclic_schema NonNullT) parent ''B'' [] fc path [] st = None
   \<and> resolveField n (cyclic_schema NonNullT) ty
        \<lparr>field_name = ''b'', field_type = NonNullT (NamedT ''B''), field_args = []\<rparr>
        [] fc path [] st = None
   \<and> resolveField n (cyclic_schema NonNullT) ty
        \<lparr>field_name = ''a'', field_type = NonNullT (NamedT ''A''), field_args = []\<rparr>
        [] fc path [] st = None"
proof (induction n arbitrary: st parent fc path ty)
  case 0
  show ?case by simp
next
  case (Suc n)
  have idf: "resolveField n (cyclic_schema NonNullT) ty'
        \<lparr>field_name = ''id'', field_type = NamedT ''ID'', field_args = []\<rparr> [] False p [] s
      = (if n = 0 then None else Some (Field ''id'' (Some []) None, s))" for ty' p s
    by (cases n) (simp_all add: isScalarType_def nonnull_cycle_types)
  show ?case
    using Suc.prems Suc.IH
    by (simp add: nonnull_cycle_types isScalarType_def idf set_visited_def Let_def
        split: option.splits)
qed

text \<open>
  The same two types with plain field types \<open>b: B\<close> and \<open>a: A\<close>: the synthesis returns,
  and \<open>a\<close> is left out of the selection of \<open>b\<close>.
\<close>

lemma plain_cycle_document:
  "buildOperation (Suc (Suc (Suc (Suc (Suc n))))) (cyclic_schema (\<lambda>t. t)) Subscription ''a''
      [] [] initial_synth_state
     = Some (Inr \<lparr>definitions =
          [\<lparr>operation = Subscription, op_name = ''aSubscription'', variableDefinitions = [],
            selectionSet =
              [Field ''a'' (Some [])
                 (Some [Field ''id'' (Some []) None,
                        Field ''b'' (Some []) (Some [Field ''id'' (Some []) None])])]\<rparr>]\<rparr>,
             initial_synth_state)"
  by (simp add: buildOperation_def buildDocumentNode_def cyclic_schema_def getFields_def
      lookup_type_def isScalarType_def initial_synth_state_def set_visited_def
        inherited_object_properties_def resetOperationVariables_def
      buildOperationName_def camel_examples last_of_path_def Let_def fun_eq_iff)

text \<open>
  C2. The claim: document synthesis terminates on every schema, a field being skipped
  exactly when its named result type, wrappers stripped, is marked on the current path.
  The code looks the field's type up under \<open>String(field.type)\<close>, wrappers included. On
  the cyclic schema \<open>A { id b: B! }\<close>, \<open>B { id a: A! }\<close> with the root field \<open>a: A\<close> the
  synthesis exceeds every bound \<open>n\<close> on the nesting of calls: it does not return.
\<close>

theorem nonnull_cycle_never_returns:
  "buildOperation n (cyclic_schema NonNullT) Subscription ''a'' [] [] initial_synth_state = None"
proof (cases n)
  case 0
  then show ?thesis
    by (simp add: buildOperation_def buildDocumentNode_def cyclic_schema_def getFields_def
        lookup_type_def)
next
  case (Suc k)
  have "resolveSelectionSet k (cyclic_schema NonNullT) ''Subscription'' ''A'' [] True [''a''] []
          (resetOperationVariables initial_synth_state) = None"
    by (rule nonnull_cycle_exceeds_every_bound[THEN conjunct1])
       (simp_all add: initial_synth_state_def set_visited_def
        inherited_object_properties_def resetOperationVariables_def)
  then show ?thesis using Suc
    by (simp add: buildOperation_def buildDocumentNode_def cyclic_schema_def getFields_def
        lookup_type_def isScalarType_def Let_def)
qed

subsection \<open>Collapsing references to models\<close>




subsection \<open>Variable names\<close>



text \<open>
  The path a nested call of \<open>resolveField\<close> is given: \<open>resolveField\<close> appends the field's
  name for \<open>resolveSelectionSet\<close>, which appends the child's name for \<open>resolveField\<close>. For
  the argument \<open>x\<close> of \<open>h\<close> below \<open>r\<close> and \<open>g\<close> it is \<open>r\<close>, \<open>g\<close>, \<open>g\<close>, \<open>h\<close>.
\<close>

lemma nested_path_repeats_field_names:
  "buildOperation (Suc (Suc (Suc (Suc (Suc n))))) deep_schema Subscription ''r'' [] []
      initial_synth_state
     = Some (Inr \<lparr>definitions =
          [\<lparr>operation = Subscription, op_name = ''rSubscription'',
            variableDefinitions = [\<lparr>var_name = ''rGGHX'', var_type = NamedTypeNode ''Int''\<rparr>],
            selectionSet =
              [Field ''r'' (Some [])
                 (Some [Field ''g'' (Some [])
                          (Some [Field ''h'' (Some [Argument ''x'' ''rGGHX'']) None])])]\<rparr>]\<rparr>,
             initial_synth_state)"
  by (simp add: buildOperation_def buildDocumentNode_def deep_schema_def getFields_def
      lookup_type_def isScalarType_def initial_synth_state_def set_visited_def
        inherited_object_properties_def resetOperationVariables_def
      resolveVariable_def getArgumentName_def buildOperationName_def camel_examples
      last_of_path_def Let_def fun_eq_iff)

text \<open>
  A type named like an inherited property. From the state the module starts in the
  field \<open>self\<close> of \<open>constructor\<close> is held back, and the document has no variable; the run
  leaves \<open>visitedTypes.constructor\<close> written, and the same synthesis run again emits
  \<open>self\<close> with its variable \<open>evSelfX\<close>.
\<close>

lemma inherited_type_name_changes_second_run:
  "buildOperation (Suc (Suc (Suc (Suc (Suc n))))) constructor_schema Subscription ''ev'' [] []
      initial_synth_state
     = Some (Inr \<lparr>definitions =
          [\<lparr>operation = Subscription, op_name = ''evSubscription'',
            variableDefinitions = [],
            selectionSet = [Field ''ev'' (Some []) (Some [Field ''id'' (Some []) None])]\<rparr>]\<rparr>,
             constructor_written)
   \<and> buildOperation (Suc (Suc (Suc (Suc (Suc n))))) constructor_schema Subscription ''ev'' [] []
      constructor_written
     = Some (Inr \<lparr>definitions =
          [\<lparr>operation = Subscription, op_name = ''evSubscription'',
            variableDefinitions = [\<lparr>var_name = ''evSelfX'', var_type = NamedTypeNode ''Int''\<rparr>],
            selectionSet =
              [Field ''ev'' (Some [])
                 (Some [Field ''id'' (Some []) None,
                        Field ''self'' (Some [Argument ''x'' ''evSelfX''])
                          (Some [Field ''id'' (Some []) None])])]\<rparr>]\<rparr>,
             constructor_written)"
  by (simp add: buildOperation_def buildDocumentNode_def constructor_schema_def
      constructor_written_def getFields_def lookup_type_def isScalarType_def
      initial_synth_state_def set_visited_def inherited_object_properties_def
      resetOperationVariables_def resolveVariable_def getArgumentName_def
      buildOperationName_def camel_examples last_of_path_def Let_def fun_eq_iff)



text \<open>
  C10. For every argument of the root field, the argument of the emitted field
  selection refers to the variable named by the camel-cased argument name, while the
  variable definition, among the first of the document, keeps the argument's bare name;
  the two names are the same exactly when camel-casing leaves the argument's name as it
  is. With the root argument \<open>room_id\<close> the definition is for \<open>room_id\<close> and the selection
  refers to \<open>roomId\<close>.
\<close>

theorem root_argument_names:
  "(typeMap S kind = Some rt
      \<and> find (\<lambda>g. field_name g = fieldName) (getFields S rt) = Some field
      \<and> buildOperation n S kind fieldName models ignore st = Some (Inr doc, st') \<longrightarrow>
     (\<exists>ss rest. doc = \<lparr>definitions =
        [\<lparr>operation = kind,
          op_name = buildOperationName (fieldName @ ''_'' @ kind_string kind),
          variableDefinitions =
            map (\<lambda>a. \<lparr>var_name = arg_name a, var_type = resolveVariableType (arg_type a)\<rparr>)
              (field_args field) @ rest,
          selectionSet =
            [Field fieldName
               (Some (map (\<lambda>a. Argument (arg_name a) (camel (arg_name a))) (field_args field)))
               ss]\<rparr>]\<rparr>))
   \<and> camel ''room_id'' = ''roomId''
   \<and> buildOperation (Suc k) room_schema Subscription ''messageAdded'' models ignore
        initial_synth_state
       = Some (Inr room_document, initial_synth_state)"
proof (intro conjI impI)
  assume a: "typeMap S kind = Some rt
      \<and> find (\<lambda>g. field_name g = fieldName) (getFields S rt) = Some field
      \<and> buildOperation n S kind fieldName models ignore st = Some (Inr doc, st')"
  from buildOperation_root[of S kind rt fieldName field n models ignore st "Inr doc" st'] a
  show "\<exists>ss rest. doc = \<lparr>definitions =
        [\<lparr>operation = kind,
          op_name = buildOperationName (fieldName @ ''_'' @ kind_string kind),
          variableDefinitions =
            map (\<lambda>a. \<lparr>var_name = arg_name a, var_type = resolveVariableType (arg_type a)\<rparr>)
              (field_args field) @ rest,
          selectionSet =
            [Field fieldName
               (Some (map (\<lambda>a. Argument (arg_name a) (camel (arg_name a))) (field_args field)))
               ss]\<rparr>]\<rparr>"
    by (auto simp: resolveVariable_def)
next
  show "camel ''room_id'' = ''roomId''" by (rule camel_examples)
next
  show "buildOperation (Suc k) room_schema Subscription ''messageAdded'' models ignore
          initial_synth_state
       = Some (Inr room_document, initial_synth_state)"
    by (simp add: buildOperation_def buildDocumentNode_def room_schema_def room_field_def
        getFields_def lookup_type_def isScalarType_def initial_synth_state_def set_visited_def
        inherited_object_properties_def
        resetOperationVariables_def addOperationVariable_def resolveVariable_def
        getArgumentName_def buildOperationName_def camel_examples room_document_def Let_def)
qed

text \<open>C10 on the schema with the root argument \<open>room_id\<close>.\<close>

theorem root_argument_names_witness:
  "typeMap room_schema Subscription = Some ''Subscription''
   \<and> find (\<lambda>g. field_name g = ''messageAdded'') (getFields room_schema ''Subscription'')
       = Some room_field
   \<and> buildOperation (Suc 0) room_schema Subscription ''messageAdded'' [] [] initial_synth_state
       = Some (Inr room_document, initial_synth_state)
   \<and> (\<exists>ss rest. room_document = \<lparr>definitions =
        [\<lparr>operation = Subscription, op_name = ''messageAddedSubscription'',
          variableDefinitions =
            [\<lparr>var_name = ''room_id'', var_type = NonNullTypeNode (NamedTypeNode ''ID'')\<rparr>]
            @ rest,
          selectionSet =
            [Field ''messageAdded'' (Some [Argument ''room_id'' ''roomId'']) ss]\<rparr>]\<rparr>)"
proof -
  note T = root_argument_names[where S = room_schema and kind = Subscription
      and rt = "''Subscription''" and fieldName = "''messageAdded''" and field = room_field
      and n = "Suc 0" and k = 0 and models = "[]" and ignore = "[]"
      and st = initial_synth_state and st' = initial_synth_state and doc = room_document]
  have h1: "typeMap room_schema Subscription = Some ''Subscription''"
    by (simp add: room_schema_def)
  have h2: "find (\<lambda>g. field_name g = ''messageAdded'') (getFields room_schema ''Subscription'')
       = Some room_field"
    by (simp add: room_schema_def getFields_def lookup_type_def room_field_def)
  note h3 = T[THEN conjunct2, THEN conjunct2]
  have c: "\<exists>ss rest. room_document = \<lparr>definitions =
        [\<lparr>operation = Subscription, op_name = ''messageAddedSubscription'',
          variableDefinitions =
            [\<lparr>var_name = ''room_id'', var_type = NonNullTypeNode (NamedTypeNode ''ID'')\<rparr>]
            @ rest,
          selectionSet =
            [Field ''messageAdded'' (Some [Argument ''room_id'' ''roomId'']) ss]\<rparr>]\<rparr>"
    using T[THEN conjunct1, THEN mp, OF conjI[OF h1 conjI[OF h2 h3]]]
    by (simp add: room_field_def buildOperationName_def camel_examples)
  from h1 h2 h3 c show ?thesis by blast
qed

section \<open>Facts about the subscription manager\<close>

text \<open>
  Each request is run to its end on the store it finds; the pump of a session is not
  part of \<open>start\<close>, so what \<open>start\<close> returns depends on no value of the stream.
\<close>

lemma stop_absent:
  "clients m ident = None \<Longrightarrow> stop ident m = (Inl (UnknownSessionId ident), m)"
  by (simp add: stop_def)

lemma stop_present:
  "clients m ident = Some c \<Longrightarrow>
   fst (stop ident m) = Inr ident \<and> clients (snd (stop ident m)) = (clients m)(ident := None)"
  by (simp add: stop_def Let_def)

lemma stop_clients: "clients (snd (stop ident m)) = (clients m)(ident := None)"
  by (auto simp: stop_def Let_def fun_eq_iff split: option.splits)

lemma stop_operations: "operations (snd (stop ident m)) = operations m"
  by (auto simp: stop_def Let_def split: option.splits)

lemma update_absent:
  "clients m (up_id event) = None \<Longrightarrow>
   update e ident event rr m = (Inl (UnknownSessionId (up_id event)), m)"
  by (simp add: update_def)

lemma start_stream:
  assumes "operations m (ev_subscription event) = Some built"
    and "subscribed e (ev_subscription event) built rr = Stream it"
  shows "start e ident event rr m =
          (Inr (Started ident),
           m\<lparr>clients := (clients m)(ident \<mapsto> \<lparr>client_name = ev_subscription event,
                 client_url = ev_url event, client_iterator = it\<rparr>)\<rparr>)"
  using assms by (simp add: start_def execute_def subscribed_def Let_def)

lemma start_immediate:
  assumes "operations m (ev_subscription event) = Some built"
    and "subscribed e (ev_subscription event) built rr = Immediate r"
  shows "start e ident event rr m = (Inr (Result r), m)"
  using assms by (simp add: start_def execute_def subscribed_def Let_def)

lemma start_clients_other:
  "k \<noteq> ident \<Longrightarrow> clients (snd (start e ident event rr m)) k = clients m k"
  by (auto simp: start_def execute_def Let_def split: option.splits execution.splits)

text \<open>The constructor on the example \<open>sofa\<close> builds the one operation of \<open>example_manager\<close>.\<close>

lemma new_example_manager:
  "new_manager (Suc (Suc (Suc (Suc n)))) example_sofa initial_synth_state
     = Some (Inr example_manager, initial_synth_state)"
  by (simp add: new_manager_def buildOperations_def example_sofa_def getOperationInfo_def
      example_manager_def message_operation_def message_document_def
      buildOperation_def buildDocumentNode_def message_schema_def user_fields_def
      getFields_def lookup_type_def isScalarType_def initial_synth_state_def set_visited_def
        inherited_object_properties_def
      resetOperationVariables_def addOperationVariable_def resolveVariable_def
      getArgumentName_def buildOperationName_def camel_examples last_of_path_def Let_def
      fun_eq_iff)

text \<open>The constructor stores operations under names of subscription fields only.\<close>

lemma buildOperations_loop_dom:
  "buildOperations_loop n so fs ops st = Some (Inr ops', st') \<Longrightarrow>
   dom ops' \<subseteq> dom ops \<union> field_name ` set fs"
proof (induction fs arbitrary: ops st)
  case Nil
  then show ?case by simp
next
  case (Cons f fs)
  from Cons.prems obtain doc st1 opName vars where
    "buildOperations_loop n so fs
       (ops(field_name f \<mapsto>
          \<lparr>operationName = opName, op_document = doc, op_variables = vars\<rparr>)) st1
     = Some (Inr ops', st')"
    by (auto split: option.splits sum.splits prod.splits)
  from Cons.IH[OF this] show ?case by auto
qed

lemma new_manager_operations:
  assumes "new_manager n so st = Some (Inr m, st')"
  shows "dom (operations m) \<subseteq> field_name ` set (subscription_fields (sofa_schema so))"
proof (cases "subscriptionType (sofa_schema so)")
  case None
  with assms show ?thesis
    by (auto simp: new_manager_def buildOperations_def)
next
  case (Some t)
  with assms obtain ops where
    "buildOperations_loop n so (getFields (sofa_schema so) t) Map.empty st = Some (Inr ops, st')"
    and "operations m = ops"
    by (auto simp: new_manager_def buildOperations_def split: option.splits sum.splits)
  with buildOperations_loop_dom[OF this(1)] Some show ?thesis
    by (simp add: subscription_fields_def)
qed

section \<open>Claims about the subscription manager\<close>

text \<open>
  C1. The claim: \<open>start\<close> binds each stored variable definition, under the variable's own
  name, to the supplied value. The code does not. The manager built for the schema of
  \<open>messageAdded\<close> is \<open>example_manager\<close>. On the event with \<open>roomId = "42"\<close>, \<open>start\<close> hands
  \<open>execute\<close> the array of variable definitions in place of the supplied values, reading
  the property \<open>roomId\<close> of that array gives nothing, and the variable values that are
  executed are empty: a \<open>subscribe\<close> that needs \<open>roomId\<close> answers with an error result
  and no session is stored. And where the \<open>reduce\<close> of \<open>execute\<close> is given the supplied
  values themselves, it binds the value under the subscription field's name
  \<open>messageAdded\<close>, not under \<open>roomId\<close>.
\<close>

theorem start_drops_supplied_variables:
  "new_manager 4 example_sofa initial_synth_state
     = Some (Inr example_manager, initial_synth_state)
   \<and> variableValues (example_env strict_subscribe) ''messageAdded''
        (array_property array_prototype_chain (op_variables message_operation)) (op_variables message_operation)
       = Map.empty
   \<and> start (example_env strict_subscribe) ''id-1'' example_event (''req'', ''res'')
        example_manager
       = (Inr (Result missing_roomId), example_manager)
   \<and> variableValues (example_env strict_subscribe) ''messageAdded''
        (ev_variables example_event) (op_variables message_operation)
       = [''messageAdded'' \<mapsto> JString ''42'']"
proof -
  have a: "new_manager 4 example_sofa initial_synth_state
             = Some (Inr example_manager, initial_synth_state)"
    using new_example_manager[of 0] by (simp add: numeral_eq_Suc)
  have b: "variableValues (example_env strict_subscribe) ''messageAdded''
        (array_property array_prototype_chain (op_variables message_operation)) (op_variables message_operation)
       = Map.empty"
    by (simp add: variableValues_def message_operation_def parseVariable_def
        array_property_def array_prototype_chain_def inherited_object_properties_def)
  have c: "start (example_env strict_subscribe) ''id-1'' example_event (''req'', ''res'')
        example_manager
       = (Inr (Result missing_roomId), example_manager)"
    using b
    by (simp add: start_def execute_def example_event_def example_manager_def example_env_def
        strict_subscribe_def Let_def)
  have d: "variableValues (example_env strict_subscribe) ''messageAdded''
        (ev_variables example_event) (op_variables message_operation)
       = [''messageAdded'' \<mapsto> JString ''42'']"
    by (simp add: variableValues_def message_operation_def parseVariable_def example_event_def
        example_env_def)
  from a b c d show ?thesis by blast
qed

text \<open>
  C9. \<open>start\<close> with a subscription field name that has no stored operation fails with
  \<open>UnknownSubscriptionField\<close>, whose message names the field, and leaves the manager
  (the session store included) as it was. A manager that the constructor has built has
  no stored operation for a name that is not a field of the schema's subscription type,
  so \<open>start\<close> with such a name fails in this way.
\<close>

theorem start_unknown_field:
  "(operations m (ev_subscription event) = None \<longrightarrow>
      start e ident event rr m = (Inl (UnknownSubscriptionField (ev_subscription event)), m)
      \<and> message (UnknownSubscriptionField (ev_subscription event))
          = ''Subscription '' @ [CHR 0x27] @ ev_subscription event @ [CHR 0x27]
              @ '' is not available'')
   \<and> (new_manager n so st = Some (Inr m, st')
        \<and> ev_subscription event \<notin> field_name ` set (subscription_fields (sofa_schema so)) \<longrightarrow>
      start e ident event rr m = (Inl (UnknownSubscriptionField (ev_subscription event)), m))"
proof (intro conjI impI)
  assume "operations m (ev_subscription event) = None"
  then show "start e ident event rr m
      = (Inl (UnknownSubscriptionField (ev_subscription event)), m)"
    by (simp add: start_def)
next
  show "message (UnknownSubscriptionField (ev_subscription event))
          = ''Subscription '' @ [CHR 0x27] @ ev_subscription event @ [CHR 0x27]
              @ '' is not available''"
    by simp
next
  assume a: "new_manager n so st = Some (Inr m, st')
        \<and> ev_subscription event \<notin> field_name ` set (subscription_fields (sofa_schema so))"
  then have "ev_subscription event \<notin> dom (operations m)"
    using new_manager_operations by blast
  then have "operations m (ev_subscription event) = None"
    by (simp add: domIff)
  then show "start e ident event rr m
      = (Inl (UnknownSubscriptionField (ev_subscription event)), m)"
    by (simp add: start_def)
qed

text \<open>
  C9 for the field name \<open>typing\<close>, which the schema of \<open>example_sofa\<close> does not have and
  \<open>example_manager\<close>, built from it, has no operation for.
\<close>

theorem start_unknown_field_witness:
  "operations example_manager (ev_subscription (example_event\<lparr>ev_subscription := ''typing''\<rparr>))
      = None
   \<and> new_manager 4 example_sofa initial_synth_state
       = Some (Inr example_manager, initial_synth_state)
   \<and> ev_subscription (example_event\<lparr>ev_subscription := ''typing''\<rparr>)
       \<notin> field_name ` set (subscription_fields (sofa_schema example_sofa))
   \<and> start (example_env streaming_subscribe) ''id-1''
        (example_event\<lparr>ev_subscription := ''typing''\<rparr>) (''req'', ''res'') example_manager
       = (Inl (UnknownSubscriptionField ''typing''), example_manager)
   \<and> message (UnknownSubscriptionField ''typing'') = ''Subscription 'typing' is not available''"
proof -
  let ?ev = "example_event\<lparr>ev_subscription := ''typing''\<rparr>"
  have h: "operations example_manager (ev_subscription ?ev) = None"
    by (simp add: example_manager_def)
  have b: "new_manager 4 example_sofa initial_synth_state
       = Some (Inr example_manager, initial_synth_state)"
    using new_example_manager[of 0] by (simp add: numeral_eq_Suc)
  have f: "ev_subscription ?ev \<notin> field_name ` set (subscription_fields (sofa_schema example_sofa))"
    by (simp add: subscription_fields_def example_sofa_def message_schema_def getFields_def
        lookup_type_def)
  note T = start_unknown_field[where m = example_manager and event = ?ev
      and e = "example_env streaming_subscribe" and ident = "''id-1''"
      and rr = "(''req'', ''res'')" and n = 4 and so = example_sofa
      and st = initial_synth_state and st' = initial_synth_state]
  have c: "start (example_env streaming_subscribe) ''id-1'' ?ev (''req'', ''res'') example_manager
       = (Inl (UnknownSubscriptionField ''typing''), example_manager)"
    using T[THEN conjunct2, THEN mp, OF conjI[OF b f]] by simp
  have d: "message (UnknownSubscriptionField ''typing'') = ''Subscription 'typing' is not available''"
    using T[THEN conjunct1, THEN mp, OF h] by simp
  from h b f c d show ?thesis by blast
qed

text \<open>
  C8. When \<open>start\<close> has a stored operation for the field, the execution gives a live
  stream and the identifier drawn is not in the store, then \<open>start\<close> returns that
  identifier; the store has grown by exactly the entry under it (one more key, and the
  entry holds the field name, the callback target and the stream); \<open>stop\<close> with the
  identifier then succeeds and leaves the store as it was before \<open>start\<close>; and a
  second \<open>stop\<close> with it fails with \<open>UnknownSessionId\<close>.
\<close>

theorem start_live_stream_then_stop:
  assumes "operations m (ev_subscription event) = Some built"
    and "subscribed e (ev_subscription event) built rr = Stream it"
    and "clients m ident = None"
    and "finite (dom (clients m))"
  shows "\<exists>m1 m2. start e ident event rr m = (Inr (Started ident), m1)
           \<and> dom (clients m1) = insert ident (dom (clients m))
           \<and> card (dom (clients m1)) = card (dom (clients m)) + 1
           \<and> clients m1 ident = Some \<lparr>client_name = ev_subscription event,
                 client_url = ev_url event, client_iterator = it\<rparr>
           \<and> stop ident m1 = (Inr ident, m2)
           \<and> clients m2 = clients m
           \<and> stop ident m2 = (Inl (UnknownSessionId ident), m2)"
proof -
  let ?c = "\<lparr>client_name = ev_subscription event, client_url = ev_url event,
             client_iterator = it\<rparr>"
  let ?m1 = "m\<lparr>clients := (clients m)(ident \<mapsto> ?c)\<rparr>"
  have s: "start e ident event rr m = (Inr (Started ident), ?m1)"
    using assms(1,2) by (rule start_stream)
  have d: "dom (clients ?m1) = insert ident (dom (clients m))" by simp
  have notin: "ident \<notin> dom (clients m)" using assms(3) by (simp add: domIff)
  have c: "card (dom (clients ?m1)) = card (dom (clients m)) + 1"
    using assms(4) notin by (simp add: d)
  have p: "clients ?m1 ident = Some ?c" by simp
  obtain m2 where m2: "stop ident ?m1 = (Inr ident, m2)"
    using stop_present[OF p] by (metis prod.collapse)
  have c2: "clients m2 = clients m"
  proof -
    have "clients m2 = (clients ?m1)(ident := None)" using stop_present[OF p] m2 by simp
    also have "\<dots> = clients m" using assms(3) by (auto simp: fun_eq_iff)
    finally show ?thesis .
  qed
  have "stop ident m2 = (Inl (UnknownSessionId ident), m2)"
    using c2 assms(3) by (simp add: stop_absent)
  with s d c p m2 c2 show ?thesis by blast
qed

text \<open>
  C8 on \<open>example_manager\<close> with a \<open>subscribe\<close> that gives a stream: the store after
  \<open>start\<close> is that of \<open>live_manager\<close>.
\<close>

theorem start_live_stream_then_stop_witness:
  "operations example_manager (ev_subscription example_event) = Some message_operation
   \<and> subscribed (example_env streaming_subscribe) (ev_subscription example_event)
        message_operation (''req'', ''res'') = Stream live_stream
   \<and> clients example_manager ''id-1'' = None
   \<and> finite (dom (clients example_manager))
   \<and> start (example_env streaming_subscribe) ''id-1'' example_event (''req'', ''res'')
        example_manager
       = (Inr (Started ''id-1''), live_manager)
   \<and> card (dom (clients live_manager)) = card (dom (clients example_manager)) + 1
   \<and> stop ''id-1'' live_manager = (Inr ''id-1'', stopped_manager)
   \<and> stop ''id-1'' stopped_manager = (Inl (UnknownSessionId ''id-1''), stopped_manager)"
proof -
  have h1: "operations example_manager (ev_subscription example_event)
              = Some message_operation"
    by (simp add: example_manager_def example_event_def)
  have h2: "subscribed (example_env streaming_subscribe) (ev_subscription example_event)
              message_operation (''req'', ''res'') = Stream live_stream"
    by (simp add: subscribed_def example_env_def streaming_subscribe_def)
  have h3: "clients example_manager ''id-1'' = None" by (simp add: example_manager_def)
  have h4: "finite (dom (clients example_manager))" by (simp add: example_manager_def)
  have e: "start (example_env streaming_subscribe) ''id-1'' example_event (''req'', ''res'')
             example_manager
          = (Inr (Started ''id-1''), live_manager)"
    by (simp add: start_def execute_def example_event_def example_manager_def example_env_def
        streaming_subscribe_def live_manager_def Let_def)
  have f: "stop ''id-1'' live_manager = (Inr ''id-1'', stopped_manager)"
    by (simp add: stop_def live_manager_def stopped_manager_def example_manager_def
        live_stream_def Let_def)
  have "card (dom (clients live_manager)) = card (dom (clients example_manager)) + 1
      \<and> stop ''id-1'' stopped_manager = (Inl (UnknownSessionId ''id-1''), stopped_manager)"
    using start_live_stream_then_stop[OF h1 h2 h3 h4] unfolding e
    by (elim exE conjE) (simp add: f)
  with h1 h2 h3 h4 e f show ?thesis by simp
qed

text \<open>
  C5 as stated fails: \<open>stop\<close> does not know who calls it. After a caller has stopped the
  session \<open>id-1\<close>, the \<open>stop\<close> that the pump calls when the stream has completed throws
  \<open>UnknownSessionId\<close> like any other; the callback drops the rejected promise.
\<close>

theorem pump_stop_after_removal_fails:
  "stop ''id-1'' live_manager = (Inr ''id-1'', stopped_manager)
   \<and> stop ''id-1'' stopped_manager = (Inl (UnknownSessionId ''id-1''), stopped_manager)
   \<and> pump_completed ''id-1'' stopped_manager
       = (\<lparr>unhandled = [UnknownSessionId ''id-1''], console = []\<rparr>, stopped_manager)"
  by (simp add: pump_completed_def stop_def live_manager_def stopped_manager_def
      example_manager_def live_stream_def Let_def)

text \<open>
  C5, as amended. \<open>stop\<close> with an identifier that is not in the store fails with
  \<open>UnknownSessionId\<close> and leaves the manager as it was, both when a caller from outside
  invokes it and when the pump of a session invokes it, on the completion of the stream
  or after a stream or delivery error: the call made by either callback of the pump is
  rejected with that error. So it is for the pump of a session whose entry a \<open>stop\<close>
  that succeeded has removed.
\<close>

theorem stop_absent_fails_for_every_caller:
  "(clients m ident = None \<longrightarrow>
      stop ident m = (Inl (UnknownSessionId ident), m)
    \<and> pump_completed ident m = (\<lparr>unhandled = [UnknownSessionId ident], console = []\<rparr>, m)
    \<and> pump_failed err ident m
        = (\<lparr>unhandled = [UnknownSessionId ident], console = [err]\<rparr>, m))
   \<and> (clients m ident = Some c \<longrightarrow>
      fst (stop ident m) = Inr ident
    \<and> clients (snd (stop ident m)) ident = None
    \<and> stop ident (snd (stop ident m)) = (Inl (UnknownSessionId ident), snd (stop ident m))
    \<and> pump_completed ident (snd (stop ident m))
        = (\<lparr>unhandled = [UnknownSessionId ident], console = []\<rparr>, snd (stop ident m))
    \<and> pump_failed err ident (snd (stop ident m))
        = (\<lparr>unhandled = [UnknownSessionId ident], console = [err]\<rparr>, snd (stop ident m)))"
proof -
  have absent: "stop ident m' = (Inl (UnknownSessionId ident), m')
    \<and> pump_completed ident m' = (\<lparr>unhandled = [UnknownSessionId ident], console = []\<rparr>, m')
    \<and> pump_failed err ident m'
        = (\<lparr>unhandled = [UnknownSessionId ident], console = [err]\<rparr>, m')"
    if "clients m' ident = None" for m'
    using stop_absent[OF that] by (simp add: pump_completed_def pump_failed_def)
  have "fst (stop ident m) = Inr ident \<and> clients (snd (stop ident m)) ident = None"
    if "clients m ident = Some c"
    using stop_present[OF that] by simp
  with absent show ?thesis by simp
qed

text \<open>
  C5 amended, on the manager with no session, and on the manager with the live session
  \<open>id-1\<close>, which \<open>stop\<close> turns into the manager whose session has been stopped.
\<close>

theorem stop_absent_fails_for_every_caller_witness:
  "clients example_manager ''id-1'' = None
   \<and> stop ''id-1'' example_manager = (Inl (UnknownSessionId ''id-1''), example_manager)
   \<and> pump_completed ''id-1'' example_manager
       = (\<lparr>unhandled = [UnknownSessionId ''id-1''], console = []\<rparr>, example_manager)
   \<and> pump_failed ''delivery failed'' ''id-1'' example_manager
       = (\<lparr>unhandled = [UnknownSessionId ''id-1''], console = [''delivery failed'']\<rparr>,
          example_manager)
   \<and> clients live_manager ''id-1''
       = Some \<lparr>client_name = ''messageAdded'', client_url = ''https://cb'',
               client_iterator = live_stream\<rparr>
   \<and> stop ''id-1'' live_manager = (Inr ''id-1'', stopped_manager)
   \<and> clients stopped_manager ''id-1'' = None
   \<and> stop ''id-1'' stopped_manager = (Inl (UnknownSessionId ''id-1''), stopped_manager)
   \<and> pump_failed ''delivery failed'' ''id-1'' stopped_manager
       = (\<lparr>unhandled = [UnknownSessionId ''id-1''], console = [''delivery failed'']\<rparr>,
          stopped_manager)"
proof -
  have h: "clients example_manager ''id-1'' = None" by (simp add: example_manager_def)
  have l: "clients live_manager ''id-1''
       = Some \<lparr>client_name = ''messageAdded'', client_url = ''https://cb'',
               client_iterator = live_stream\<rparr>"
    by (simp add: live_manager_def)
  have s: "stop ''id-1'' live_manager = (Inr ''id-1'', stopped_manager)"
    by (simp add: stop_def live_manager_def stopped_manager_def example_manager_def
        live_stream_def Let_def)
  note A = stop_absent_fails_for_every_caller[where m = example_manager
      and ident = "''id-1''" and err = "''delivery failed''", THEN conjunct1, THEN mp, OF h]
  note B = stop_absent_fails_for_every_caller[where m = live_manager
      and ident = "''id-1''" and err = "''delivery failed''", THEN conjunct2, THEN mp, OF l]
  from B have b: "clients stopped_manager ''id-1'' = None
   \<and> stop ''id-1'' stopped_manager = (Inl (UnknownSessionId ''id-1''), stopped_manager)
   \<and> pump_failed ''delivery failed'' ''id-1'' stopped_manager
       = (\<lparr>unhandled = [UnknownSessionId ''id-1''], console = [''delivery failed'']\<rparr>,
          stopped_manager)"
    by (simp add: s)
  from A b h l s show ?thesis by simp
qed

text \<open>
  C7 as stated fails: \<open>update\<close> returns what \<open>start\<close> returns, and that is an identifier
  only when the new execution gives a stream. Where it gives an immediate result,
  \<open>update\<close> on the live session \<open>id-1\<close> returns that result, and the old session is gone
  with no new one in its place.
\<close>

theorem update_without_stream_returns_no_identifier:
  "update (example_env rejecting_subscribe) ''id-2'' example_update (''req'', ''res'')
      live_manager
     = (Inr (Result rejected), stopped_manager)"
  by (simp add: update_def start_def execute_def stop_def live_manager_def stopped_manager_def
      example_manager_def example_update_def example_env_def rejecting_subscribe_def
      live_stream_def Let_def)

text \<open>
  C7, as amended. \<open>update\<close> with an identifier that is in the store, where the identifier
  drawn for the new session differs from it: \<open>update\<close> is \<open>start\<close>, with the stored
  field name and callback target and the new variables, on the manager that \<open>stop\<close> of
  the old session leaves. Afterwards the old identifier is not in the store, and \<open>stop\<close>
  and \<open>update\<close> with it fail with \<open>UnknownSessionId\<close>. When the new execution gives a
  live stream, \<open>update\<close> returns the new identifier and the store is the old one with
  the old entry removed and the new entry added; when it gives an immediate result,
  \<open>update\<close> returns that result and the store is the old one with the old entry
  removed.
\<close>

theorem update_replaces_session:
  assumes "clients m (up_id event) = Some c" and "ident \<noteq> up_id event"
  shows "update e ident event rr m =
           start e ident \<lparr>ev_subscription = client_name c, ev_variables = up_variables event,
                          ev_url = client_url c\<rparr> rr (snd (stop (up_id event) m))
    \<and> clients (snd (update e ident event rr m)) (up_id event) = None
    \<and> stop (up_id event) (snd (update e ident event rr m))
        = (Inl (UnknownSessionId (up_id event)), snd (update e ident event rr m))
    \<and> update e ident2 \<lparr>up_id = up_id event, up_variables = vars2\<rparr> rr2
          (snd (update e ident event rr m))
        = (Inl (UnknownSessionId (up_id event)), snd (update e ident event rr m))
    \<and> (operations m (client_name c) = Some built
          \<and> subscribed e (client_name c) built rr = Stream it \<longrightarrow>
        fst (update e ident event rr m) = Inr (Started ident)
        \<and> clients (snd (update e ident event rr m))
            = (clients m)(up_id event := None,
                          ident \<mapsto> \<lparr>client_name = client_name c, client_url = client_url c,
                                     client_iterator = it\<rparr>))
    \<and> (operations m (client_name c) = Some built
          \<and> subscribed e (client_name c) built rr = Immediate res \<longrightarrow>
        fst (update e ident event rr m) = Inr (Result res)
        \<and> clients (snd (update e ident event rr m)) = (clients m)(up_id event := None))"
proof -
  let ?ev = "\<lparr>ev_subscription = client_name c, ev_variables = up_variables event,
              ev_url = client_url c\<rparr>"
  let ?m1 = "snd (stop (up_id event) m)"
  have u: "update e ident event rr m = start e ident ?ev rr ?m1"
    using assms(1) by (simp add: update_def)
  have gone: "clients (snd (update e ident event rr m)) (up_id event) = None"
    using assms(2) by (simp add: u start_clients_other stop_clients)
  have s: "stop (up_id event) (snd (update e ident event rr m))
        = (Inl (UnknownSessionId (up_id event)), snd (update e ident event rr m))"
    using gone by (rule stop_absent)
  have u2: "update e ident2 \<lparr>up_id = up_id event, up_variables = vars2\<rparr> rr2
          (snd (update e ident event rr m))
        = (Inl (UnknownSessionId (up_id event)), snd (update e ident event rr m))"
    using gone by (simp add: update_absent)
  have live: "fst (update e ident event rr m) = Inr (Started ident)
        \<and> clients (snd (update e ident event rr m))
            = (clients m)(up_id event := None,
                          ident \<mapsto> \<lparr>client_name = client_name c, client_url = client_url c,
                                     client_iterator = it\<rparr>)"
    if "operations m (client_name c) = Some built
          \<and> subscribed e (client_name c) built rr = Stream it"
  proof -
    have "operations ?m1 (ev_subscription ?ev) = Some built"
      using that by (simp add: stop_operations)
    moreover have "subscribed e (ev_subscription ?ev) built rr = Stream it"
      using that by simp
    ultimately show ?thesis
      by (simp add: u start_stream stop_clients)
  qed
  have imm: "fst (update e ident event rr m) = Inr (Result res)
        \<and> clients (snd (update e ident event rr m)) = (clients m)(up_id event := None)"
    if "operations m (client_name c) = Some built
          \<and> subscribed e (client_name c) built rr = Immediate res"
  proof -
    have "operations ?m1 (ev_subscription ?ev) = Some built"
      using that by (simp add: stop_operations)
    moreover have "subscribed e (ev_subscription ?ev) built rr = Immediate res"
      using that by simp
    ultimately show ?thesis
      by (simp add: u start_immediate stop_clients)
  qed
  from u gone s u2 live imm show ?thesis by blast
qed

text \<open>
  C7 amended, on the live session \<open>id-1\<close> with the new identifier \<open>id-2\<close>: with a
  \<open>subscribe\<close> that gives a stream and with one that gives an error result.
\<close>

theorem update_replaces_session_witness:
  "clients live_manager (up_id example_update) = Some
      \<lparr>client_name = ''messageAdded'', client_url = ''https://cb'',
       client_iterator = live_stream\<rparr>
   \<and> ''id-2'' \<noteq> up_id example_update
   \<and> operations live_manager ''messageAdded'' = Some message_operation
   \<and> subscribed (example_env streaming_subscribe) ''messageAdded'' message_operation
        (''req'', ''res'') = Stream live_stream
   \<and> subscribed (example_env rejecting_subscribe) ''messageAdded'' message_operation
        (''req'', ''res'') = Immediate rejected
   \<and> fst (update (example_env streaming_subscribe) ''id-2'' example_update (''req'', ''res'')
            live_manager)
       = Inr (Started ''id-2'')
   \<and> clients (snd (update (example_env streaming_subscribe) ''id-2'' example_update
                     (''req'', ''res'') live_manager)) ''id-1'' = None
   \<and> fst (update (example_env rejecting_subscribe) ''id-2'' example_update (''req'', ''res'')
            live_manager)
       = Inr (Result rejected)"
proof -
  let ?c = "\<lparr>client_name = ''messageAdded'', client_url = ''https://cb'',
             client_iterator = live_stream\<rparr>"
  have h1: "clients live_manager (up_id example_update) = Some ?c"
    by (simp add: live_manager_def example_update_def)
  have h2: "''id-2'' \<noteq> up_id example_update" by (simp add: example_update_def)
  have h3: "operations live_manager (client_name ?c) = Some message_operation"
    by (simp add: live_manager_def example_manager_def)
  have h4: "subscribed (example_env streaming_subscribe) (client_name ?c) message_operation
              (''req'', ''res'') = Stream live_stream"
    by (simp add: subscribed_def example_env_def streaming_subscribe_def)
  have h5: "subscribed (example_env rejecting_subscribe) (client_name ?c) message_operation
              (''req'', ''res'') = Immediate rejected"
    by (simp add: subscribed_def example_env_def rejecting_subscribe_def)
  note A = update_replaces_session[OF h1 h2, where e = "example_env streaming_subscribe"
      and rr = "(''req'', ''res'')" and built = message_operation and it = live_stream]
  note B = update_replaces_session[OF h1 h2, where e = "example_env rejecting_subscribe"
      and rr = "(''req'', ''res'')" and built = message_operation and res = rejected]
  note a = A[THEN conjunct2, THEN conjunct2, THEN conjunct2, THEN conjunct2, THEN conjunct1,
      THEN mp, OF conjI[OF h3 h4], THEN conjunct1]
  note b = A[THEN conjunct2, THEN conjunct1]
  note c = B[THEN conjunct2, THEN conjunct2, THEN conjunct2, THEN conjunct2, THEN conjunct2,
      THEN mp, OF conjI[OF h3 h5], THEN conjunct1]
  from h1 h2 h3 h4 h5 a b c show ?thesis by (simp add: example_update_def)
qed

end
